theory Spec2Isabelle
  imports Complex_Main
begin

section \<open>Numbers and strings of the host language\<close>

text \<open>
  The program is TypeScript. A \<^verbatim>\<open>number\<close> is modelled by the rational it stands for
  (price, cost, stock, quantity, amounts, summary totals), the literal \<^verbatim>\<open>0.11\<close> as
  \<open>11 / 100\<close>, and the arithmetic is exact, except where a definition takes the rounding
  of the host as a parameter. The value Infinity is outside the model; NaN, which
  \<^verbatim>\<open>parseFloat\<close> returns for an unreadable string, is \<open>None\<close>. A string is a list of
  characters with codes below 256; the case mappings act on the letters A to Z and a to z.
\<close>

definition isDigit :: "char \<Rightarrow> bool" where
  "isDigit c = (c \<in> set ''0123456789'')"

definition digitVal :: "char \<Rightarrow> nat" where
  "digitVal c = of_char c - 48"

definition digitsVal :: "string \<Rightarrow> nat" where
  "digitsVal ds = foldl (\<lambda>a c. 10 * a + digitVal c) 0 ds"

text \<open>White space that \<^verbatim>\<open>trim\<close> and \<^verbatim>\<open>parseFloat\<close> skip: tab, line feed, vertical
  tab, form feed, carriage return, space and no-break space.\<close>

definition isWhiteSpace :: "char \<Rightarrow> bool" where
  "isWhiteSpace c =
     (c \<in> set [CHR 0x09, CHR 0x0A, CHR 0x0B, CHR 0x0C, CHR 0x0D, CHR '' '', CHR 0xA0])"

definition trim :: "string \<Rightarrow> string" where
  "trim s = rev (dropWhile isWhiteSpace (rev (dropWhile isWhiteSpace s)))"

definition toLowerCase :: "string \<Rightarrow> string" where
  "toLowerCase s =
     map (\<lambda>c. case map_of (zip ''ABCDEFGHIJKLMNOPQRSTUVWXYZ'' ''abcdefghijklmnopqrstuvwxyz'') c of
                 Some l \<Rightarrow> l | None \<Rightarrow> c) s"

definition toUpperCase :: "string \<Rightarrow> string" where
  "toUpperCase s =
     map (\<lambda>c. case map_of (zip ''abcdefghijklmnopqrstuvwxyz'' ''ABCDEFGHIJKLMNOPQRSTUVWXYZ'') c of
                 Some u \<Rightarrow> u | None \<Rightarrow> c) s"

text \<open>\<^verbatim>\<open>s.includes(sub)\<close>: \<open>sub\<close> occurs in \<open>s\<close> as a contiguous run.\<close>

fun startsWith :: "string \<Rightarrow> string \<Rightarrow> bool" where
  "startsWith s [] = True"
| "startsWith [] (d # sub) = False"
| "startsWith (c # s) (d # sub) = (c = d \<and> startsWith s sub)"

fun includesStr :: "string \<Rightarrow> string \<Rightarrow> bool" where
  "includesStr [] sub = (sub = [])"
| "includesStr (c # s) sub = (startsWith (c # s) sub \<or> includesStr s sub)"

text \<open>\<^verbatim>\<open>s.split(sep)\<close> for a one-character separator: always at least one piece.\<close>

fun split :: "char \<Rightarrow> string \<Rightarrow> string list" where
  "split sep [] = [[]]"
| "split sep (c # s) =
     (if c = sep then [] # split sep s
      else (case split sep s of w # ws \<Rightarrow> (c # w) # ws | [] \<Rightarrow> [[c]]))"

fun join :: "string \<Rightarrow> string list \<Rightarrow> string" where
  "join sep [] = []"
| "join sep [w] = w"
| "join sep (w # v # ws) = w @ sep @ join sep (v # ws)"

text \<open>
  \<^verbatim>\<open>parseFloat\<close>: leading white space is skipped, then the longest prefix that is a
  decimal literal is read: an optional sign, digits, an optional fraction, an optional
  exponent. With no digit in the mantissa the result is NaN (\<open>None\<close>).
\<close>

definition exponentPart :: "string \<Rightarrow> int" where
  "exponentPart r =
     (case r of
        [] \<Rightarrow> 0
      | c # r1 \<Rightarrow>
          if c = CHR ''e'' \<or> c = CHR ''E'' then
            (case r1 of
               [] \<Rightarrow> 0
             | d # r2 \<Rightarrow>
                 if d = CHR ''-'' then
                   (if takeWhile isDigit r2 = [] then 0 else - int (digitsVal (takeWhile isDigit r2)))
                 else if d = CHR ''+'' then int (digitsVal (takeWhile isDigit r2))
                 else int (digitsVal (takeWhile isDigit r1)))
          else 0)"

definition scale10 :: "rat \<Rightarrow> int \<Rightarrow> rat" where
  "scale10 m e = (if 0 \<le> e then m * 10 ^ nat e else m / 10 ^ nat (- e))"

definition unsignedLiteral :: "string \<Rightarrow> rat option" where
  "unsignedLiteral u =
     (let ip = takeWhile isDigit u;
          r1 = dropWhile isDigit u;
          hasDot = (case r1 of [] \<Rightarrow> False | c # r \<Rightarrow> c = CHR ''.'');
          fp = (if hasDot then takeWhile isDigit (tl r1) else []);
          r2 = (if hasDot then dropWhile isDigit (tl r1) else r1)
      in if ip = [] \<and> fp = [] then None
         else Some (scale10 (of_nat (digitsVal ip) + of_nat (digitsVal fp) / 10 ^ length fp)
                      (exponentPart r2)))"

definition parseFloat :: "string \<Rightarrow> rat option" where
  "parseFloat s =
     (case dropWhile isWhiteSpace s of
        [] \<Rightarrow> None
      | c # r \<Rightarrow>
          if c = CHR ''-'' then map_option uminus (unsignedLiteral r)
          else if c = CHR ''+'' then unsignedLiteral r
          else unsignedLiteral (c # r))"

text \<open>\<^verbatim>\<open>x || 0\<close> on a number: NaN and 0 are falsy, so both give 0.\<close>

definition orZero :: "rat option \<Rightarrow> rat" where
  "orZero x = (case x of None \<Rightarrow> 0 | Some v \<Rightarrow> if v = 0 then 0 else v)"

section \<open>Data model\<close>

text \<open>
  The records follow the object shapes the code builds and reads (\<^verbatim>\<open>MOCK_PRODUCTS\<close>,
  \<^verbatim>\<open>{ ...product, quantity: 1 }\<close>, the transaction literal of \<^verbatim>\<open>handleProcessPayment\<close>,
  \<^verbatim>\<open>INITIAL_SUMMARY\<close>). The field \<^verbatim>\<open>id\<close> of a product is \<open>pid\<close> here; the fields of a
  transaction carry the prefix \<open>t_\<close>.
\<close>

record Product =
  pid :: string
  name :: string
  category :: string
  price :: rat
  cost :: rat
  stock :: rat
  reorderPoint :: rat
  sku :: string
  unit :: string

record CartItem = Product +
  quantity :: rat

datatype PaymentMethod = CASH | QRIS | DEBIT

record Transaction =
  t_id :: string
  t_date :: string
  t_items :: "CartItem list"
  t_subtotal :: rat
  t_tax :: rat
  t_total :: rat
  t_paymentMethod :: PaymentMethod

record FinancialSummary =
  revenue :: rat
  cogs :: rat
  grossProfit :: rat
  expenses :: rat
  netProfit :: rat

section \<open>Point of sale: derived values\<close>

record Totals =
  subtotal :: rat
  tax :: rat
  total' :: rat
  totalItems :: rat

definition cartTotals :: "CartItem list \<Rightarrow> Totals" where
  "cartTotals cart =
     (let sub = foldl (\<lambda>sum item. sum + price item * quantity item) 0 cart;
          tx = sub * (11 / 100);
          tot = sub + tx;
          items = foldl (\<lambda>sum item. sum + quantity item) 0 cart
      in \<lparr>subtotal = sub, tax = tx, total' = tot, totalItems = items\<rparr>)"

definition change :: "CartItem list \<Rightarrow> PaymentMethod \<Rightarrow> string \<Rightarrow> rat" where
  "change cart paymentMethod cashReceived =
     (if paymentMethod \<noteq> CASH then 0
      else let received = orZero (parseFloat cashReceived)
           in max 0 (received - total' (cartTotals cart)))"

definition isPaymentValid :: "CartItem list \<Rightarrow> PaymentMethod \<Rightarrow> string \<Rightarrow> bool" where
  "isPaymentValid cart paymentMethod cashReceived =
     (if length cart = 0 then False
      else if paymentMethod = CASH then
        (let received = orZero (parseFloat cashReceived)
         in received \<ge> total' (cartTotals cart))
      else True)"

section \<open>Point of sale: the cart\<close>

text \<open>Decimal text of a whole number, as a template literal prints it.\<close>

fun showNat :: "nat \<Rightarrow> string" where
  "showNat n =
     (if n < 10 then [''0123456789'' ! n]
      else showNat (n div 10) @ [''0123456789'' ! (n mod 10)])"

definition showInt :: "int \<Rightarrow> string" where
  "showInt i = (if i < 0 then CHR ''-'' # showNat (nat (- i)) else showNat (nat i))"

text \<open>Decimal text of a number: a whole number by its digits, any other by its whole part,
  a dot and the digits of its fraction, as far as they end within 17 places.\<close>

fun fractionDigits :: "nat \<Rightarrow> rat \<Rightarrow> string" where
  "fractionDigits 0 r = []"
| "fractionDigits (Suc n) r =
     (if r = 0 then []
      else ''0123456789'' ! nat \<lfloor>r * 10\<rfloor> # fractionDigits n (r * 10 - of_int \<lfloor>r * 10\<rfloor>))"

definition showNumber :: "rat \<Rightarrow> string" where
  "showNumber r =
     (let a = \<bar>r\<bar>;
          whole = showNat (nat \<lfloor>a\<rfloor>);
          digits = fractionDigits 17 (a - of_int \<lfloor>a\<rfloor>)
      in (if r < 0 then ''-'' else []) @ whole @ (if digits = [] then [] else CHR ''.'' # digits))"

datatype FeedbackType = success | error

type_synonym Feedback = "FeedbackType \<times> string"

definition getStockStatus :: "CartItem list \<Rightarrow> Product \<Rightarrow> rat \<times> bool \<times> rat" where
  "getStockStatus cart product =
     (let cartItem = find (\<lambda>i. pid i = pid product) cart;
          inCart = (case cartItem of Some ci \<Rightarrow> quantity ci | None \<Rightarrow> 0);
          available = stock product - inCart
      in (available, available \<le> 0, inCart))"

text \<open>
  Each handler takes the cart of the current render and returns the next cart together
  with the feedback it shows, if any. \<^verbatim>\<open>{ ...product, quantity: 1 }\<close> is the product
  extended by the field \<open>quantity\<close>.
\<close>

definition handleAddToCart :: "CartItem list \<Rightarrow> Product \<Rightarrow> CartItem list \<times> Feedback option" where
  "handleAddToCart cart product =
     (let available = fst (getStockStatus cart product)
      in if available \<le> 0 then
           (cart, Some (error, ''Out of stock! Only '' @ showNumber (stock product) @ '' available.''))
         else
           ((case find (\<lambda>item. pid item = pid product) cart of
               Some existing \<Rightarrow>
                 map (\<lambda>item. if pid item = pid product
                              then item\<lparr>quantity := quantity item + 1\<rparr> else item) cart
             | None \<Rightarrow> cart @ [Product.extend product (CartItem.fields 1)]),
            None))"

definition handleUpdateQuantity ::
  "Product list \<Rightarrow> CartItem list \<Rightarrow> string \<Rightarrow> rat \<Rightarrow> CartItem list \<times> Feedback option" where
  "handleUpdateQuantity products cart ident delta =
     (case find (\<lambda>i. pid i = ident) cart of
        None \<Rightarrow> (cart, None)
      | Some item \<Rightarrow>
          if delta > 0 \<and>
             (case find (\<lambda>p. pid p = ident) products of
                Some product \<Rightarrow> quantity item \<ge> stock product
              | None \<Rightarrow> False)
          then (cart, Some (error, ''Max stock reached''))
          else
            (map (\<lambda>item. if pid item = ident
                         then (let newQty = quantity item + delta
                               in if newQty > 0 then item\<lparr>quantity := newQty\<rparr> else item)
                         else item) cart,
             None))"

definition handleRemoveFromCart :: "CartItem list \<Rightarrow> string \<Rightarrow> CartItem list" where
  "handleRemoveFromCart cart ident = filter (\<lambda>item. pid item \<noteq> ident) cart"

text \<open>
  The three cart operations as events, and a run of events from a cart: each event is
  handled to completion before the next, over the same catalog.
\<close>

datatype CartOp = AddItem Product | ChangeQuantity string rat | RemoveItem string

fun applyOp :: "Product list \<Rightarrow> CartItem list \<Rightarrow> CartOp \<Rightarrow> CartItem list" where
  "applyOp products cart (AddItem product) = fst (handleAddToCart cart product)"
| "applyOp products cart (ChangeQuantity ident delta) = fst (handleUpdateQuantity products cart ident delta)"
| "applyOp products cart (RemoveItem ident) = handleRemoveFromCart cart ident"

definition runOps :: "Product list \<Rightarrow> CartItem list \<Rightarrow> CartOp list \<Rightarrow> CartItem list" where
  "runOps products cart ops = foldl (applyOp products) cart ops"

text \<open>The catalog the application starts with (\<^verbatim>\<open>MOCK_PRODUCTS\<close>).\<close>

definition MOCK_PRODUCTS :: "Product list" where
  "MOCK_PRODUCTS =
    [\<lparr>pid = ''1'', name = ''Premium Rice 5kg'', category = ''Food'', price = 65000, cost = 50000,
      stock = 24, reorderPoint = 10, sku = ''RICE-001'', unit = ''Bag''\<rparr>,
     \<lparr>pid = ''2'', name = ''Cooking Oil 2L'', category = ''Food'', price = 35000, cost = 28000,
      stock = 8, reorderPoint = 15, sku = ''OIL-002'', unit = ''Bottle''\<rparr>,
     \<lparr>pid = ''3'', name = ''Mineral Water 600ml'', category = ''Bev'', price = 4000, cost = 2500,
      stock = 150, reorderPoint = 50, sku = ''WTR-003'', unit = ''Bottle''\<rparr>,
     \<lparr>pid = ''4'', name = ''Instant Noodle Pack'', category = ''Food'', price = 3500, cost = 2200,
      stock = 85, reorderPoint = 40, sku = ''NDL-004'', unit = ''Pack''\<rparr>,
     \<lparr>pid = ''5'', name = ''Dish Soap 800ml'', category = ''Clean'', price = 15000, cost = 11000,
      stock = 12, reorderPoint = 5, sku = ''SOAP-005'', unit = ''Bottle''\<rparr>,
     \<lparr>pid = ''6'', name = ''Sugar 1kg'', category = ''Food'', price = 14500, cost = 12000,
      stock = 30, reorderPoint = 10, sku = ''SGR-006'', unit = ''Pack''\<rparr>,
     \<lparr>pid = ''7'', name = ''Coffee Mix Pack'', category = ''Bev'', price = 12000, cost = 9000,
      stock = 45, reorderPoint = 20, sku = ''COF-007'', unit = ''Pack''\<rparr>,
     \<lparr>pid = ''8'', name = ''Toothpaste Large'', category = ''Clean'', price = 18000, cost = 13000,
      stock = 3, reorderPoint = 10, sku = ''TP-008'', unit = ''Tube''\<rparr>]"

definition INITIAL_SUMMARY :: FinancialSummary where
  "INITIAL_SUMMARY =
     \<lparr>revenue = 15400000, cogs = 9800000, grossProfit = 5600000, expenses = 2100000,
      netProfit = 3500000\<rparr>"

text \<open>
  What the cart is checked against: a line is in order when its quantity is at least 1
  and at most the stock of the catalog product its id refers to. An event is one the
  screen raises when it adds a product of the catalog, changes a quantity by 1 or -1
  (the two buttons of a cart line), or removes a line. A number is whole when it equals
  its floor.
\<close>

definition isWhole :: "rat \<Rightarrow> bool" where
  "isWhole r = (of_int \<lfloor>r\<rfloor> = r)"

definition lineOk :: "Product list \<Rightarrow> CartItem \<Rightarrow> bool" where
  "lineOk products item =
     (1 \<le> quantity item \<and>
      (case find (\<lambda>p. pid p = pid item) products of
         Some p \<Rightarrow> quantity item \<le> stock p
       | None \<Rightarrow> False))"

definition opOk :: "Product list \<Rightarrow> CartOp \<Rightarrow> bool" where
  "opOk products op =
     (case op of
        AddItem product \<Rightarrow> product \<in> set products
      | ChangeQuantity ident delta \<Rightarrow> delta = 1 \<or> delta = - 1
      | RemoveItem ident \<Rightarrow> True)"

definition cartInv :: "Product list \<Rightarrow> CartItem list \<Rightarrow> bool" where
  "cartInv products cart =
     (distinct (map pid cart) \<and> list_all (lineOk products) cart
      \<and> list_all (\<lambda>item. isWhole (quantity item)) cart)"

section \<open>Application state: recording a sale\<close>

text \<open>
  The state held at the application root (\<^verbatim>\<open>products\<close>, \<^verbatim>\<open>transactions\<close>,
  \<^verbatim>\<open>summary\<close>, here with the prefix \<open>st_\<close>). \<^verbatim>\<open>handleTransactionComplete\<close> appends the
  transaction to the journal, walks the products once, lowering the stock of each product
  that has a line in the transaction and adding its cost to \<open>transactionCost\<close>, and then
  updates the summary. The arithmetic of this section is exact; the same handler with the
  rounding of the host is \<open>handleTransactionCompleteFl\<close> below.
\<close>

record AppState =
  st_products :: "Product list"
  st_transactions :: "Transaction list"
  st_summary :: FinancialSummary

text \<open>The body of \<^verbatim>\<open>products.map(...)\<close> with the counter it adds to: the updated
  products and the final value of \<open>transactionCost\<close>.\<close>

fun sellProducts :: "CartItem list \<Rightarrow> Product list \<Rightarrow> rat \<Rightarrow> Product list \<times> rat" where
  "sellProducts items [] transactionCost = ([], transactionCost)"
| "sellProducts items (product # rest) transactionCost =
     (case find (\<lambda>item. pid item = pid product) items of
        Some soldItem \<Rightarrow>
          (let r = sellProducts items rest (transactionCost + cost product * quantity soldItem)
           in (product\<lparr>stock := stock product - quantity soldItem\<rparr> # fst r, snd r))
      | None \<Rightarrow>
          (let r = sellProducts items rest transactionCost
           in (product # fst r, snd r)))"

definition handleTransactionComplete :: "AppState \<Rightarrow> Transaction \<Rightarrow> AppState" where
  "handleTransactionComplete s transaction =
     (let sold = sellProducts (t_items transaction) (st_products s) 0;
          updatedProducts = fst sold;
          transactionCost = snd sold;
          newRevenue = t_subtotal transaction;
          newGrossProfit = newRevenue - transactionCost;
          prev = st_summary s
      in \<lparr>st_products = updatedProducts,
          st_transactions = st_transactions s @ [transaction],
          st_summary = prev\<lparr>revenue := revenue prev + newRevenue,
                         cogs := cogs prev + transactionCost,
                         grossProfit := grossProfit prev + newGrossProfit,
                         netProfit := netProfit prev + newGrossProfit\<rparr>\<rparr>)"

text \<open>
  The quantity of a product sold by a transaction: the quantities of the lines with its id,
  added up. A transaction's lines are a snapshot of the cart, which holds one line for each
  product.
\<close>

definition soldQuantity :: "CartItem list \<Rightarrow> string \<Rightarrow> rat" where
  "soldQuantity items ident = (\<Sum>item\<leftarrow>filter (\<lambda>item. pid item = ident) items. quantity item)"

text \<open>The cost of a line at the master cost of the product it refers to.\<close>

definition lineCost :: "Product list \<Rightarrow> CartItem \<Rightarrow> rat" where
  "lineCost ps item =
     (case find (\<lambda>p. pid p = pid item) ps of
        Some p \<Rightarrow> cost p * quantity item
      | None \<Rightarrow> 0)"

section \<open>Point of sale: checkout\<close>

text \<open>
  \<^verbatim>\<open>handleProcessPayment\<close> builds the transaction that is handed to
  \<^verbatim>\<open>handleTransactionComplete\<close>: a snapshot of the cart with the derived totals. The fresh
  id, the time stamp and the answer to the anomaly dialog come from outside and are
  parameters; \<open>None\<close> is the early return.
\<close>

definition ANOMALY_THRESHOLD :: rat where
  "ANOMALY_THRESHOLD = 2000000"

definition isAnomaly :: "CartItem list \<Rightarrow> bool" where
  "isAnomaly cart = (total' (cartTotals cart) > ANOMALY_THRESHOLD)"

definition handleProcessPayment ::
  "string \<Rightarrow> string \<Rightarrow> bool \<Rightarrow> bool \<Rightarrow> CartItem list \<Rightarrow> PaymentMethod \<Rightarrow> string \<Rightarrow> Transaction option" where
  "handleProcessPayment uuid now confirmed isProcessing cart paymentMethod cashReceived =
     (if isPaymentValid cart paymentMethod cashReceived = False \<or> isProcessing then None
      else if isAnomaly cart \<and> confirmed = False then None
      else Some \<lparr>t_id = uuid, t_date = now, t_items = cart,
                  t_subtotal = subtotal (cartTotals cart), t_tax = tax (cartTotals cart),
                  t_total = total' (cartTotals cart), t_paymentMethod = paymentMethod\<rparr>)"

text \<open>A sale used in the examples: two bags of rice and a bottle of oil, paid by QRIS, and
  a second one of three bottles of water paid in cash.\<close>

definition exampleSale :: Transaction where
  "exampleSale =
     the (handleProcessPayment ''t-1'' ''2024-05-01T10:00:00.000Z'' True False
            (runOps MOCK_PRODUCTS []
               [AddItem (MOCK_PRODUCTS ! 0), AddItem (MOCK_PRODUCTS ! 1), AddItem (MOCK_PRODUCTS ! 0)])
            QRIS [])"

definition exampleSale2 :: Transaction where
  "exampleSale2 =
     the (handleProcessPayment ''t-2'' ''2024-05-01T11:00:00.000Z'' True False
            (runOps MOCK_PRODUCTS []
               [AddItem (MOCK_PRODUCTS ! 2), AddItem (MOCK_PRODUCTS ! 2), AddItem (MOCK_PRODUCTS ! 2)])
            CASH ''20000'')"

definition initialState :: AppState where
  "initialState = \<lparr>st_products = MOCK_PRODUCTS, st_transactions = [], st_summary = INITIAL_SUMMARY\<rparr>"

section \<open>Import staging: data\<close>

text \<open>
  A staged record as the two branches of \<^verbatim>\<open>handleFileUpload\<close> build it. The fields
  \<^verbatim>\<open>id\<close>, \<^verbatim>\<open>source\<close> and \<^verbatim>\<open>date\<close> carry the prefix \<open>s_\<close>. A CSV row is an
  object from header to cell, here an association list; a cell is \<^verbatim>\<open>undefined\<close>
  (\<open>None\<close>) when the line has fewer values than there are headers. The result of the
  document oracle is an object with optional keys \<^verbatim>\<open>error\<close>, \<^verbatim>\<open>date\<close>,
  \<^verbatim>\<open>supplier\<close>, \<^verbatim>\<open>total\<close> and \<^verbatim>\<open>items\<close>.
\<close>

datatype Status = PENDING | VALID | ERROR

datatype Source = CSV_IMPORT | AI_OCR

type_synonym RawRow = "(string \<times> string option) list"

record OcrItem =
  i_name :: string
  i_price :: rat
  i_quantity :: int

record OcrResult =
  r_error :: "string option"
  r_date :: "string option"
  r_supplier :: "string option"
  r_total :: "rat option"
  r_items :: "OcrItem list option"

datatype RawParams = RawRow RawRow | RawResult OcrResult

record StagedTransaction =
  s_id :: string
  s_source :: Source
  s_date :: "string option"
  supplierOrCustomer :: "string option"
  totalAmount :: rat
  itemsSummary :: string
  status :: Status
  validationError :: "string option"
  rawParams :: RawParams

text \<open>Truthiness of an optional string and of an optional number.\<close>

definition truthyStr :: "string option \<Rightarrow> bool" where
  "truthyStr value = (case value of None \<Rightarrow> False | Some v \<Rightarrow> v \<noteq> [])"

definition truthyNum :: "rat option \<Rightarrow> bool" where
  "truthyNum value = (case value of None \<Rightarrow> False | Some v \<Rightarrow> v \<noteq> 0)"

section \<open>Import staging: validation of a CSV row\<close>

definition formatHeader :: "string \<Rightarrow> string" where
  "formatHeader header =
     join '' '' (map (\<lambda>word. toUpperCase (take 1 word) @ toLowerCase (drop 1 word))
                    (split CHR ''_'' header))"

text \<open>\<^verbatim>\<open>row[key]\<close>, and \<^verbatim>\<open>row[key] = value\<close> on an object: a key that is there
  keeps its place.\<close>

definition getField :: "RawRow \<Rightarrow> string \<Rightarrow> string option" where
  "getField row key = (case map_of row key of Some v \<Rightarrow> v | None \<Rightarrow> None)"

fun setField :: "string \<Rightarrow> string option \<Rightarrow> RawRow \<Rightarrow> RawRow" where
  "setField key value [] = [(key, value)]"
| "setField key value ((k, v) # row) =
     (if k = key then (key, value) # row else (k, v) # setField key value row)"

text \<open>\<^verbatim>\<open>value.toString().replace(/[^0-9.-]+/g, "")\<close>: only digits, dots and minus signs
  are kept.\<close>

definition stripNonNumeric :: "string \<Rightarrow> string" where
  "stripNonNumeric v = filter (\<lambda>c. isDigit c \<or> c = CHR ''.'' \<or> c = CHR ''-'') v"

text \<open>
  The body of the loop of \<^verbatim>\<open>smartValidate\<close> for one header: the message of the first
  rule the cell fails, if any. \<^verbatim>\<open>Date.parse\<close> is a function of the host and a parameter
  here; it gives \<open>None\<close> where the host gives NaN.
\<close>

definition checkField :: "(string \<Rightarrow> int option) \<Rightarrow> RawRow \<Rightarrow> string \<Rightarrow> string option" where
  "checkField Date_parse row key =
     (let value = getField row key;
          lowerKey = toLowerCase key
      in if (includesStr lowerKey ''id'' \<or> includesStr lowerKey ''name''
             \<or> includesStr lowerKey ''nama'' \<or> includesStr lowerKey ''sku'')
            \<and> (case value of None \<Rightarrow> True | Some v \<Rightarrow> v = [] \<or> trim v = [])
         then Some (formatHeader key @ '' is required'')
         else if (includesStr lowerKey ''amount'' \<or> includesStr lowerKey ''price''
                  \<or> includesStr lowerKey ''gaji'' \<or> includesStr lowerKey ''salary''
                  \<or> includesStr lowerKey ''total'')
                 \<and> (case parseFloat (if truthyStr value then stripNonNumeric (the value) else ''0'') of
                        None \<Rightarrow> True
                      | Some num \<Rightarrow> num < 0)
         then Some (''Invalid number in '' @ formatHeader key)
         else if (includesStr lowerKey ''date'' \<or> includesStr lowerKey ''tanggal'')
                 \<and> (case value of None \<Rightarrow> True | Some v \<Rightarrow> v = [] \<or> Date_parse v = None)
         then Some (''Invalid date in '' @ formatHeader key)
         else None)"

record Validation =
  v_status :: Status
  v_error :: "string option"

fun smartValidate :: "(string \<Rightarrow> int option) \<Rightarrow> RawRow \<Rightarrow> string list \<Rightarrow> Validation" where
  "smartValidate Date_parse row [] = \<lparr>v_status = VALID, v_error = None\<rparr>"
| "smartValidate Date_parse row (key # headers) =
     (case checkField Date_parse row key of
        Some message \<Rightarrow> \<lparr>v_status = ERROR, v_error = Some message\<rparr>
      | None \<Rightarrow> smartValidate Date_parse row headers)"

section \<open>Import staging: upload\<close>

text \<open>\<^verbatim>\<open>headers.forEach((header, index) => rawRow[header] = values[index]?.trim())\<close>.\<close>

definition parseRow :: "string list \<Rightarrow> string \<Rightarrow> RawRow" where
  "parseRow headers line =
     (let values = split CHR '','' line
      in foldl (\<lambda>rawRow (header, index).
                  setField header (if index < length values then Some (trim (values ! index)) else None) rawRow)
           [] (zip headers [0..<length headers]))"

definition isAmountHeader :: "string \<Rightarrow> bool" where
  "isAmountHeader h =
     (includesStr (toLowerCase h) ''amount'' \<or> includesStr (toLowerCase h) ''total''
      \<or> includesStr (toLowerCase h) ''gaji'' \<or> includesStr (toLowerCase h) ''price'')"

definition isDateHeader :: "string \<Rightarrow> bool" where
  "isDateHeader h = (includesStr (toLowerCase h) ''date'' \<or> includesStr (toLowerCase h) ''tanggal'')"

definition isDescHeader :: "string \<Rightarrow> bool" where
  "isDescHeader h =
     (includesStr (toLowerCase h) ''name'' \<or> includesStr (toLowerCase h) ''desc''
      \<or> includesStr (toLowerCase h) ''nama'' \<or> includesStr (toLowerCase h) ''supplier'')"

text \<open>One line of the file to one staged record. The fresh id and the current time are
  parameters. \<^verbatim>\<open>parseFloat(undefined)\<close> is NaN.\<close>

definition stageRow ::
  "(string \<Rightarrow> int option) \<Rightarrow> string \<Rightarrow> string \<Rightarrow> string list \<Rightarrow> string \<Rightarrow> StagedTransaction" where
  "stageRow Date_parse uuid now headers line =
     (let rawRow = parseRow headers line;
          validation = smartValidate Date_parse rawRow headers;
          amountKey = find isAmountHeader headers;
          dateKey = find isDateHeader headers;
          descKey = find isDescHeader headers
      in \<lparr>s_id = uuid,
          s_source = CSV_IMPORT,
          s_date = (case dateKey of Some k \<Rightarrow> getField rawRow k | None \<Rightarrow> Some now),
          supplierOrCustomer = (case descKey of Some k \<Rightarrow> getField rawRow k | None \<Rightarrow> Some ''Batch Import''),
          totalAmount = (case amountKey of
                           Some k \<Rightarrow> orZero (case getField rawRow k of
                                               Some v \<Rightarrow> parseFloat v
                                             | None \<Rightarrow> None)
                         | None \<Rightarrow> 0),
          itemsSummary = ''CSV Record'',
          status = v_status validation,
          validationError = v_error validation,
          rawParams = RawRow rawRow\<rparr>)"

text \<open>
  The result of an upload: the staged records, the dynamic headers and the alert shown,
  if any. The staged records and the headers are reset before either branch runs.
\<close>

record Upload =
  u_stagedData :: "StagedTransaction list"
  u_dynamicHeaders :: "string list option"
  u_alert :: "string option"

definition uploadCsv ::
  "(string \<Rightarrow> int option) \<Rightarrow> (nat \<Rightarrow> string) \<Rightarrow> string \<Rightarrow> string \<Rightarrow> Upload" where
  "uploadCsv Date_parse uuid now text =
     (let lines = filter (\<lambda>l. trim l \<noteq> []) (split CHR 0x0A text)
      in if length lines < 2 then
           \<lparr>u_stagedData = [], u_dynamicHeaders = None,
            u_alert = Some ''CSV file is empty or missing headers''\<rparr>
         else
           (let headers = map trim (split CHR '','' (hd lines));
                newItems = map (\<lambda>(n, line). stageRow Date_parse (uuid n) now headers line)
                             (zip [0..<length (tl lines)] (tl lines))
            in \<lparr>u_stagedData = newItems, u_dynamicHeaders = Some headers, u_alert = None\<rparr>))"

definition uploadImage :: "string \<Rightarrow> string \<Rightarrow> OcrResult \<Rightarrow> Upload" where
  "uploadImage uuid now result =
     (if truthyStr (r_error result) then
        \<lparr>u_stagedData = [], u_dynamicHeaders = None,
         u_alert = Some (''AI Analysis Failed: '' @ the (r_error result))\<rparr>
      else
        (let isValid = (truthyNum (r_total result) \<and> truthyStr (r_date result));
             newStaged =
               \<lparr>s_id = uuid,
                s_source = AI_OCR,
                s_date = Some (if truthyStr (r_date result) then the (r_date result) else now),
                supplierOrCustomer =
                  Some (if truthyStr (r_supplier result) then the (r_supplier result)
                        else ''Unknown Supplier''),
                totalAmount = orZero (r_total result),
                itemsSummary =
                  (case r_items result of
                     Some items \<Rightarrow> join '', '' (map (\<lambda>i. showInt (i_quantity i) @ ''x '' @ i_name i) items)
                   | None \<Rightarrow> ''Unknown Items''),
                status = (if isValid then VALID else ERROR),
                validationError = (if isValid then None else Some ''AI could not extract Total or Date''),
                rawParams = RawResult result\<rparr>
         in \<lparr>u_stagedData = [newStaged], u_dynamicHeaders = None, u_alert = None\<rparr>))"

section \<open>Import staging: commit\<close>

definition handleImportTransactions :: "AppState \<Rightarrow> StagedTransaction list \<Rightarrow> AppState" where
  "handleImportTransactions s stagedTransactions =
     (let totalImportValue = foldl (\<lambda>acc st. acc + totalAmount st) 0 stagedTransactions;
          prev = st_summary s
      in s\<lparr>st_summary := prev\<lparr>expenses := expenses prev + totalImportValue,
                                   netProfit := netProfit prev - totalImportValue\<rparr>\<rparr>)"

text \<open>\<^verbatim>\<open>handleCommit\<close>, with \<^verbatim>\<open>onImportTransactions\<close> bound to
  \<^verbatim>\<open>handleImportTransactions\<close> as the application does: the records left in staging,
  the application state and the alert shown.\<close>

definition handleCommit ::
  "StagedTransaction list \<Rightarrow> AppState \<Rightarrow> StagedTransaction list \<times> AppState \<times> string" where
  "handleCommit stagedData s =
     (let validData = filter (\<lambda>d. status d = VALID) stagedData
      in if length validData = 0 then (stagedData, s, ''No valid data to commit.'')
         else (filter (\<lambda>d. status d \<noteq> VALID) stagedData,
               handleImportTransactions s validData,
               showNat (length validData) @ '' records successfully processed.''))"

text \<open>Staged records and oracle results used in the examples.\<close>

definition exampleRecord :: "string \<Rightarrow> rat \<Rightarrow> Status \<Rightarrow> string option \<Rightarrow> StagedTransaction" where
  "exampleRecord ident amount st err =
     \<lparr>s_id = ident, s_source = CSV_IMPORT, s_date = Some ''2024-05-01'',
      supplierOrCustomer = Some ''Batch Import'', totalAmount = amount,
      itemsSummary = ''CSV Record'', status = st, validationError = err, rawParams = RawRow []\<rparr>"

definition exampleStaged :: "StagedTransaction list" where
  "exampleStaged =
     [exampleRecord ''r1'' 100000 VALID None,
      exampleRecord ''r2'' 0 ERROR (Some ''Invalid number in Amount''),
      exampleRecord ''r3'' 250000 VALID None,
      exampleRecord ''r4'' 0 ERROR (Some ''Name is required''),
      exampleRecord ''r5'' 50000 VALID None]"

definition errorResult :: OcrResult where
  "errorResult =
     \<lparr>r_error = Some ''Invalid Document'', r_date = None, r_supplier = None, r_total = None,
      r_items = None\<rparr>"

definition receiptResult :: "string option \<Rightarrow> rat option \<Rightarrow> OcrResult" where
  "receiptResult date tot =
     \<lparr>r_error = None, r_date = date, r_supplier = Some ''Toko Makmur'', r_total = tot,
      r_items = Some [\<lparr>i_name = ''Rice'', i_price = 65000, i_quantity = 2\<rparr>]\<rparr>"

section \<open>Inventory: adding a product\<close>

text \<open>
  The form of the inventory screen holds a partial product. \<^verbatim>\<open>handleInputChange\<close> stores
  the text of a field, read with \<^verbatim>\<open>parseFloat\<close> for the four numeric fields; a numeric
  field that is absent or NaN is \<open>None\<close>, both being falsy. \<^verbatim>\<open>handleAddSubmit\<close> returns the
  error it shows or the new product, which \<^verbatim>\<open>handleAddProduct\<close> puts in front of the
  catalog. The fresh id is a parameter.
\<close>

record FormData =
  f_name :: "string option"
  f_sku :: "string option"
  f_category :: "string option"
  f_unit :: "string option"
  f_price :: "rat option"
  f_cost :: "rat option"
  f_stock :: "rat option"
  f_reorderPoint :: "rat option"

definition initialFormData :: FormData where
  "initialFormData =
     \<lparr>f_name = None, f_sku = None, f_category = Some ''Food'', f_unit = Some ''Pcs'',
      f_price = None, f_cost = None, f_stock = None, f_reorderPoint = None\<rparr>"

definition handleInputChange :: "FormData \<Rightarrow> string \<times> string \<Rightarrow> FormData" where
  "handleInputChange prev target =
     (let field = fst target; value = snd target
      in if field = ''price'' then prev\<lparr>f_price := parseFloat value\<rparr>
         else if field = ''cost'' then prev\<lparr>f_cost := parseFloat value\<rparr>
         else if field = ''stock'' then prev\<lparr>f_stock := parseFloat value\<rparr>
         else if field = ''reorderPoint'' then prev\<lparr>f_reorderPoint := parseFloat value\<rparr>
         else if field = ''name'' then prev\<lparr>f_name := Some value\<rparr>
         else if field = ''sku'' then prev\<lparr>f_sku := Some value\<rparr>
         else if field = ''category'' then prev\<lparr>f_category := Some value\<rparr>
         else if field = ''unit'' then prev\<lparr>f_unit := Some value\<rparr>
         else prev)"

definition handleAddSubmit :: "Product list \<Rightarrow> string \<Rightarrow> FormData \<Rightarrow> string + Product" where
  "handleAddSubmit products uuid formData =
     (if truthyStr (f_name formData) = False \<or> truthyStr (f_sku formData) = False
         \<or> truthyNum (f_price formData) = False \<or> truthyNum (f_cost formData) = False
      then Inl ''All fields marked with * are required.''
      else if list_ex (\<lambda>p. Some (sku p) = f_sku formData) products
      then Inl (''SKU '' @ [CHR 0x27] @ the (f_sku formData) @ [CHR 0x27]
                @ '' already exists. SKU must be unique.'')
      else if orZero (f_price formData) < 0 \<or> orZero (f_cost formData) < 0
      then Inl ''Price and Cost cannot be negative.''
      else Inr \<lparr>pid = uuid,
                 name = the (f_name formData),
                 category = (if truthyStr (f_category formData) then the (f_category formData) else ''Food''),
                 price = orZero (f_price formData),
                 cost = orZero (f_cost formData),
                 stock = orZero (f_stock formData),
                 reorderPoint = (if truthyNum (f_reorderPoint formData)
                                 then the (f_reorderPoint formData) else 10),
                 sku = the (f_sku formData),
                 unit = (if truthyStr (f_unit formData) then the (f_unit formData) else ''Pcs'')\<rparr>)"

definition handleAddProduct :: "Product list \<Rightarrow> Product \<Rightarrow> Product list" where
  "handleAddProduct products newProduct = newProduct # products"

text \<open>A product entered with the initial stock 2.5, used in an example.\<close>

definition flourForm :: FormData where
  "flourForm =
     foldl handleInputChange initialFormData
       [(''name'', ''Flour 1kg''), (''sku'', ''FLR-009''), (''cost'', ''9000''),
        (''price'', ''12000''), (''stock'', ''2.5'')]"

definition flour :: Product where
  "flour =
     \<lparr>pid = ''9'', name = ''Flour 1kg'', category = ''Food'', price = 12000, cost = 9000,
      stock = 5 / 2, reorderPoint = 10, sku = ''FLR-009'', unit = ''Pcs''\<rparr>"

section \<open>Double arithmetic\<close>

text \<open>
  The host computes with IEEE 754 doubles: the result of an addition, subtraction or
  multiplication is the exact result rounded to the nearest number with 53 significant
  bits, a tie going to the even one. \<open>roundToDouble\<close> is that rounding on the rationals;
  the limits of the exponent, far from the amounts of a shop, are not modelled.
  \<open>floorLog2 a\<close> is the \<open>k\<close> with \<open>2 ^ k \<le> a < 2 ^ (k + 1)\<close> for \<open>a > 0\<close>.
\<close>

fun bitLength :: "nat \<Rightarrow> nat" where
  "bitLength n = (if n = 0 then 0 else Suc (bitLength (n div 2)))"

definition pow2 :: "int \<Rightarrow> rat" where
  "pow2 k = (if 0 \<le> k then 2 ^ nat k else 1 / 2 ^ nat (- k))"

definition floorLog2 :: "rat \<Rightarrow> int" where
  "floorLog2 a =
     (if 1 \<le> a then int (bitLength (nat \<lfloor>a\<rfloor>)) - 1
      else - int (bitLength (nat (\<lceil>1 / a\<rceil> - 1))))"

definition roundHalfEven :: "rat \<Rightarrow> int" where
  "roundHalfEven m =
     (let f = \<lfloor>m\<rfloor>; r = m - of_int f
      in if r < 1 / 2 then f
         else if 1 / 2 < r then f + 1
         else if even f then f else f + 1)"

definition roundToDouble :: "rat \<Rightarrow> rat" where
  "roundToDouble x =
     (if x = 0 then 0
      else (let e = floorLog2 \<bar>x\<bar> - 52;
                n = roundHalfEven (\<bar>x\<bar> / pow2 e)
            in sgn x * of_int n * pow2 e))"

text \<open>
  \<^verbatim>\<open>handleTransactionComplete\<close> once more, with the rounding \<open>fl\<close> of the host applied to
  the result of every arithmetic operation. With the identity for \<open>fl\<close> it is the exact
  \<open>handleTransactionComplete\<close> above; with \<open>roundToDouble\<close> it computes as the code does.
\<close>

fun sellProductsFl ::
  "(rat \<Rightarrow> rat) \<Rightarrow> CartItem list \<Rightarrow> Product list \<Rightarrow> rat \<Rightarrow> Product list \<times> rat" where
  "sellProductsFl fl items [] transactionCost = ([], transactionCost)"
| "sellProductsFl fl items (product # rest) transactionCost =
     (case find (\<lambda>item. pid item = pid product) items of
        Some soldItem \<Rightarrow>
          (let r = sellProductsFl fl items rest
                     (fl (transactionCost + fl (cost product * quantity soldItem)))
           in (product\<lparr>stock := fl (stock product - quantity soldItem)\<rparr> # fst r, snd r))
      | None \<Rightarrow>
          (let r = sellProductsFl fl items rest transactionCost
           in (product # fst r, snd r)))"

definition transactionCostFl :: "(rat \<Rightarrow> rat) \<Rightarrow> Product list \<Rightarrow> CartItem list \<Rightarrow> rat" where
  "transactionCostFl fl ps items = snd (sellProductsFl fl items ps 0)"

definition handleTransactionCompleteFl :: "(rat \<Rightarrow> rat) \<Rightarrow> AppState \<Rightarrow> Transaction \<Rightarrow> AppState" where
  "handleTransactionCompleteFl fl s transaction =
     (let sold = sellProductsFl fl (t_items transaction) (st_products s) 0;
          updatedProducts = fst sold;
          transactionCost = snd sold;
          newRevenue = t_subtotal transaction;
          newGrossProfit = fl (newRevenue - transactionCost);
          prev = st_summary s
      in \<lparr>st_products = updatedProducts,
          st_transactions = st_transactions s @ [transaction],
          st_summary = prev\<lparr>revenue := fl (revenue prev + newRevenue),
                         cogs := fl (cogs prev + transactionCost),
                         grossProfit := fl (grossProfit prev + newGrossProfit),
                         netProfit := fl (netProfit prev + newGrossProfit)\<rparr>\<rparr>)"

text \<open>The gross profit a sale adds, as the handler computes it.\<close>

definition saleGrossProfit :: "(rat \<Rightarrow> rat) \<Rightarrow> Product list \<Rightarrow> Transaction \<Rightarrow> rat" where
  "saleGrossProfit fl ps transaction =
     fl (t_subtotal transaction - transactionCostFl fl ps (t_items transaction))"

text \<open>
  Two products whose prices are the doubles written 700001.01 and 1.02, and the sale of one
  unit of each, used in an example.
\<close>

definition generator :: Product where
  "generator =
     \<lparr>pid = ''a'', name = ''Generator'', category = ''Tools'',
      price = roundToDouble (70000101 / 100), cost = 1, stock = 10, reorderPoint = 10,
      sku = ''GEN-001'', unit = ''Pcs''\<rparr>"

definition candy :: Product where
  "candy =
     \<lparr>pid = ''b'', name = ''Candy'', category = ''Food'',
      price = roundToDouble (102 / 100), cost = 1, stock = 10, reorderPoint = 10,
      sku = ''CND-002'', unit = ''Pcs''\<rparr>"

definition centSale :: "Product \<Rightarrow> Transaction" where
  "centSale p =
     \<lparr>t_id = ''t'', t_date = ''2024-05-01T10:00:00.000Z'',
      t_items = [Product.extend p (CartItem.fields 1)],
      t_subtotal = price p,
      t_tax = roundToDouble (price p * roundToDouble (11 / 100)),
      t_total = roundToDouble (price p + roundToDouble (price p * roundToDouble (11 / 100))),
      t_paymentMethod = QRIS\<rparr>"

definition centState :: AppState where
  "centState =
     \<lparr>st_products = [generator, candy], st_transactions = [], st_summary = INITIAL_SUMMARY\<rparr>"

section \<open>Import staging: the validation rules as specified\<close>

text \<open>
  Written from the specification, to be compared with \<open>smartValidate\<close>. A header is
  identifier-like, amount-like or date-like when its lower-cased name contains one of the
  terms of the kind. A cell is blank when it is missing or holds white space only. The
  number of a cell is read after all characters but digits, dots and minus signs are
  removed; a missing or empty cell is read as 0. A header passes when its cell is not
  blank if it is identifier-like, has a number that is not negative if it is amount-like,
  and holds a text the date parser accepts if it is date-like. The reason of a header that
  does not pass is that of the first of the three rules it fails.
\<close>

definition identifierLike :: "string \<Rightarrow> bool" where
  "identifierLike h =
     list_ex (includesStr (toLowerCase h)) [''id'', ''name'', ''sku'', ''nama'']"

definition amountLike :: "string \<Rightarrow> bool" where
  "amountLike h =
     list_ex (includesStr (toLowerCase h)) [''amount'', ''price'', ''total'', ''gaji'', ''salary'']"

definition dateLike :: "string \<Rightarrow> bool" where
  "dateLike h = list_ex (includesStr (toLowerCase h)) [''date'', ''tanggal'']"

definition cellBlank :: "string option \<Rightarrow> bool" where
  "cellBlank c = (case c of None \<Rightarrow> True | Some v \<Rightarrow> list_all isWhiteSpace v)"

definition cellNumber :: "string option \<Rightarrow> rat option" where
  "cellNumber c =
     (case c of
        None \<Rightarrow> Some 0
      | Some v \<Rightarrow> if v = [] then Some 0 else parseFloat (filter (\<lambda>ch. ch \<in> set ''0123456789.-'') v))"

definition requiredOk :: "RawRow \<Rightarrow> string \<Rightarrow> bool" where
  "requiredOk row key = (if identifierLike key then cellBlank (getField row key) = False else True)"

definition numberOk :: "RawRow \<Rightarrow> string \<Rightarrow> bool" where
  "numberOk row key =
     (if amountLike key
      then (case cellNumber (getField row key) of None \<Rightarrow> False | Some n \<Rightarrow> 0 \<le> n)
      else True)"

definition dateOk :: "(string \<Rightarrow> int option) \<Rightarrow> RawRow \<Rightarrow> string \<Rightarrow> bool" where
  "dateOk Date_parse row key =
     (if dateLike key
      then (case getField row key of None \<Rightarrow> False | Some v \<Rightarrow> v \<noteq> [] \<and> Date_parse v \<noteq> None)
      else True)"

definition headerPasses :: "(string \<Rightarrow> int option) \<Rightarrow> RawRow \<Rightarrow> string \<Rightarrow> bool" where
  "headerPasses Date_parse row key =
     (requiredOk row key \<and> numberOk row key \<and> dateOk Date_parse row key)"

definition headerReason :: "RawRow \<Rightarrow> string \<Rightarrow> string" where
  "headerReason row key =
     (if requiredOk row key = False then formatHeader key @ '' is required''
      else if numberOk row key = False then ''Invalid number in '' @ formatHeader key
      else ''Invalid date in '' @ formatHeader key)"

section \<open>Properties of the derived values\<close>

lemma foldl_plus_sum_list:
  fixes f :: "'a \<Rightarrow> 'b::comm_monoid_add"
  shows "foldl (\<lambda>sum item. sum + f item) a xs = a + sum_list (map f xs)"
  by (induction xs arbitrary: a) (simp_all add: add.assoc)

text \<open>
  C4. For every cart: the subtotal is the sum of price times quantity over the lines, the
  tax is 11 percent of the subtotal, the total is subtotal plus tax, which is the
  subtotal times 1.11, and the item count is the sum of the quantities.
\<close>

theorem cartTotals_sums:
  "subtotal (cartTotals cart) = (\<Sum>item\<leftarrow>cart. price item * quantity item)
   \<and> tax (cartTotals cart) = subtotal (cartTotals cart) * (11 / 100)
   \<and> total' (cartTotals cart) = subtotal (cartTotals cart) + tax (cartTotals cart)
   \<and> total' (cartTotals cart) = subtotal (cartTotals cart) * (111 / 100)
   \<and> totalItems (cartTotals cart) = (\<Sum>item\<leftarrow>cart. quantity item)"
  by (simp add: cartTotals_def Let_def foldl_plus_sum_list algebra_simps)

section \<open>Properties of the cart\<close>

lemma find_distinct_unique:
  "distinct (map f xs) \<Longrightarrow> find (\<lambda>x. f x = k) xs = Some y \<Longrightarrow> x \<in> set xs \<Longrightarrow> f x = k \<Longrightarrow> x = y"
  by (induction xs) (auto split: if_splits)

lemma find_distinct_member:
  "distinct (map f xs) \<Longrightarrow> x \<in> set xs \<Longrightarrow> find (\<lambda>y. f y = f x) xs = Some x"
  by (induction xs) (auto split: if_splits)

lemma find_None_notin: "find (\<lambda>x. f x = k) xs = None \<Longrightarrow> k \<notin> f ` set xs"
  by (induction xs) (auto split: if_splits)

lemma find_Some_in: "find P xs = Some y \<Longrightarrow> y \<in> set xs \<and> P y"
  by (induction xs) (auto split: if_splits)

lemma find_Some_image: "find (\<lambda>x. f x = k) xs = Some y \<Longrightarrow> k \<in> f ` set xs"
  by (induction xs) (auto split: if_splits)

lemma handleAddToCart_pids:
  "map pid (fst (handleAddToCart cart product)) =
     (if pid product \<in> set (map pid cart) \<or> fst (getStockStatus cart product) \<le> 0
      then map pid cart else map pid cart @ [pid product])"
  by (auto simp: handleAddToCart_def Let_def Product.defs CartItem.defs
           dest: find_None_notin find_Some_image split: option.splits)

lemma handleAddToCart_distinct:
  "distinct (map pid cart) \<Longrightarrow> distinct (map pid (fst (handleAddToCart cart product)))"
  by (simp add: handleAddToCart_pids)

lemma handleUpdateQuantity_pids:
  "map pid (fst (handleUpdateQuantity products cart ident delta)) = map pid cart"
  by (auto simp: handleUpdateQuantity_def Let_def split: option.splits)

lemma handleUpdateQuantity_distinct:
  "distinct (map pid cart) \<Longrightarrow> distinct (map pid (fst (handleUpdateQuantity products cart ident delta)))"
  by (simp add: handleUpdateQuantity_pids)

lemma handleRemoveFromCart_distinct:
  "distinct (map pid cart) \<Longrightarrow> distinct (map pid (handleRemoveFromCart cart ident))"
  by (simp add: handleRemoveFromCart_def distinct_map_filter)

lemma isWhole_Ints: "isWhole r = (r \<in> \<int>)"
  unfolding isWhole_def
  by (metis Ints_of_int floor_of_int Ints_cases)

lemma isWhole_step:
  assumes "isWhole a" and "isWhole b" and "b < a"
  shows "b + 1 \<le> a"
proof -
  obtain i j where a: "a = of_int i" and b: "b = of_int j"
    using assms(1,2) unfolding isWhole_Ints by (auto elim!: Ints_cases)
  have "j < i" using assms(3) unfolding a b by simp
  then have "j + 1 \<le> i" by simp
  then have "(of_int (j + 1) :: rat) \<le> of_int i" by (simp only: of_int_le_iff)
  then show ?thesis unfolding a b by simp
qed

lemma isWhole_arith:
  "isWhole (1 :: rat)" "isWhole q \<Longrightarrow> isWhole (q + 1)" "isWhole q \<Longrightarrow> isWhole (q + - 1)"
  "isWhole q \<Longrightarrow> isWhole (q - 1)"
  by (simp_all add: isWhole_Ints)

lemma handleAddToCart_whole:
  "list_all (\<lambda>item. isWhole (quantity item)) cart \<Longrightarrow>
   list_all (\<lambda>item. isWhole (quantity item)) (fst (handleAddToCart cart product))"
  by (auto simp: handleAddToCart_def Let_def list_all_iff isWhole_arith Product.defs CartItem.defs
           split: option.splits)

lemma handleUpdateQuantity_whole:
  assumes "delta = 1 \<or> delta = - 1" and "list_all (\<lambda>item. isWhole (quantity item)) cart"
  shows "list_all (\<lambda>item. isWhole (quantity item)) (fst (handleUpdateQuantity products cart ident delta))"
  using assms
  by (auto simp: handleUpdateQuantity_def Let_def list_all_iff isWhole_arith split: option.splits)

lemma handleRemoveFromCart_whole:
  "list_all (\<lambda>item. isWhole (quantity item)) cart \<Longrightarrow>
   list_all (\<lambda>item. isWhole (quantity item)) (handleRemoveFromCart cart ident)"
  by (simp add: handleRemoveFromCart_def list_all_iff)

lemma handleAddToCart_lineOk:
  assumes d: "distinct (map pid products)" and m: "product \<in> set products"
    and w: "isWhole (stock product)"
    and c: "distinct (map pid cart)" and ok: "list_all (lineOk products) cart"
    and wq: "list_all (\<lambda>item. isWhole (quantity item)) cart"
  shows "list_all (lineOk products) (fst (handleAddToCart cart product))"
proof -
  have fp: "find (\<lambda>p. pid p = pid product) products = Some product"
    using find_distinct_member [OF d m] .
  show ?thesis
  proof (cases "find (\<lambda>i. pid i = pid product) cart")
    case None
    have "1 \<le> stock product" if "0 < stock product"
      using isWhole_step [OF w _ that] by (simp add: isWhole_Ints)
    then show ?thesis using ok fp None
      by (auto simp: handleAddToCart_def getStockStatus_def Let_def lineOk_def
            Product.defs CartItem.defs list_all_iff)
  next
    case (Some ci)
    have u: "\<And>item. item \<in> set cart \<Longrightarrow> pid item = pid product \<Longrightarrow> item = ci"
      using find_distinct_unique [OF c Some] by blast
    have ci: "ci \<in> set cart" using find_Some_in [OF Some] by simp
    then have wci: "isWhole (quantity ci)" using wq by (simp add: list_all_iff)
    have step: "quantity ci + 1 \<le> stock product" if "quantity ci < stock product"
      using isWhole_step [OF w wci that] .
    show ?thesis
    proof (cases "stock product - quantity ci \<le> 0")
      case True
      then show ?thesis using ok Some
        by (simp add: handleAddToCart_def getStockStatus_def Let_def)
    next
      case False
      then have lt: "quantity ci < stock product" by simp
      define F where "F = (\<lambda>item::CartItem. if pid item = pid product
                              then item\<lparr>quantity := quantity item + 1\<rparr> else item)"
      have res: "fst (handleAddToCart cart product) = map F cart"
        using Some False by (simp add: handleAddToCart_def getStockStatus_def Let_def F_def)
      have F_ok: "lineOk products (F l)" if l: "l \<in> set cart" for l
      proof (cases "pid l = pid product")
        case True
        then have "l = ci" using u l by simp
        moreover have "lineOk products ci" using ok ci by (simp add: list_all_iff)
        ultimately show ?thesis using True fp step [OF lt]
          by (simp add: F_def lineOk_def)
      next
        case False
        then show ?thesis using ok l by (simp add: F_def list_all_iff)
      qed
      show ?thesis unfolding res list_all_iff
      proof
        fix x assume "x \<in> set (map F cart)"
        then obtain l where "l \<in> set cart" and "x = F l" by auto
        then show "lineOk products x" using F_ok by simp
      qed
    qed
  qed
qed

lemma stepQuantity_lineOk:
  assumes le: "delta = 1 \<or> delta = - 1" and ok: "lineOk products l"
    and wq: "isWhole (quantity l)"
    and ws: "list_all (\<lambda>p. isWhole (stock p)) products"
    and guard: "\<not> (delta > 0 \<and>
             (case find (\<lambda>p. pid p = pid l) products of
                Some product \<Rightarrow> quantity l \<ge> stock product
              | None \<Rightarrow> False))"
  shows "lineOk products (let newQty = quantity l + delta
                          in if newQty > 0 then l\<lparr>quantity := newQty\<rparr> else l)"
proof (cases "find (\<lambda>p. pid p = pid l) products")
  case None
  then show ?thesis using ok by (simp add: lineOk_def)
next
  case (Some p)
  have q: "1 \<le> quantity l" "quantity l \<le> stock p"
    using ok Some by (simp_all add: lineOk_def)
  have "p \<in> set products" using find_Some_in [OF Some] by simp
  then have wp: "isWhole (stock p)" using ws by (simp add: list_all_iff)
  show ?thesis
  proof (cases "delta = 1")
    case True
    then have "quantity l < stock p" using guard Some by simp
    then have "quantity l + 1 \<le> stock p" by (rule isWhole_step [OF wp wq])
    then show ?thesis using q True Some by (simp add: lineOk_def Let_def)
  next
    case False
    then have dm: "delta = - 1" using le by simp
    have "1 \<le> quantity l - 1" if "0 < quantity l - 1"
    proof -
      have "isWhole (quantity l - 1)" using isWhole_arith(3) [OF wq] by simp
      from isWhole_step [OF this _ that] show ?thesis by (simp add: isWhole_Ints)
    qed
    then show ?thesis using q dm Some ok by (simp add: lineOk_def Let_def)
  qed
qed

lemma handleUpdateQuantity_lineOk:
  assumes le: "delta = 1 \<or> delta = - 1"
    and ws: "list_all (\<lambda>p. isWhole (stock p)) products"
    and c: "distinct (map pid cart)" and ok: "list_all (lineOk products) cart"
    and wq: "list_all (\<lambda>item. isWhole (quantity item)) cart"
  shows "list_all (lineOk products) (fst (handleUpdateQuantity products cart ident delta))"
proof (cases "find (\<lambda>i. pid i = ident) cart")
  case None
  then show ?thesis using ok by (simp add: handleUpdateQuantity_def)
next
  case (Some ci)
  have u: "\<And>item. item \<in> set cart \<Longrightarrow> pid item = ident \<Longrightarrow> item = ci"
    using find_distinct_unique [OF c Some] by blast
  show ?thesis
  proof (cases "delta > 0 \<and>
             (case find (\<lambda>p. pid p = ident) products of
                Some product \<Rightarrow> quantity ci \<ge> stock product
              | None \<Rightarrow> False)")
    case True
    then show ?thesis using ok Some by (simp add: handleUpdateQuantity_def)
  next
    case False
    define F where "F = (\<lambda>item::CartItem. if pid item = ident
                         then (let newQty = quantity item + delta
                               in if newQty > 0 then item\<lparr>quantity := newQty\<rparr> else item)
                         else item)"
    have F_ok: "lineOk products (F l)" if l: "l \<in> set cart" for l
    proof (cases "pid l = ident")
      case True
      have lci: "l = ci" using u l True by simp
      have okl: "lineOk products l" using ok l by (simp add: list_all_iff)
      have wl: "isWhole (quantity l)" using wq l by (simp add: list_all_iff)
      have g: "\<not> (delta > 0 \<and>
             (case find (\<lambda>p. pid p = pid l) products of
                Some product \<Rightarrow> quantity l \<ge> stock product
              | None \<Rightarrow> False))"
        using False True unfolding lci by simp
      show ?thesis
        using stepQuantity_lineOk [OF le okl wl ws g] True by (simp add: F_def)
    next
      case False
      then show ?thesis using ok l by (simp add: F_def list_all_iff)
    qed
    have res: "fst (handleUpdateQuantity products cart ident delta) = map F cart"
      by (simp only: handleUpdateQuantity_def Some option.case if_not_P [OF False] fst_conv F_def)
    show ?thesis
      unfolding res list_all_iff
    proof
      fix x assume "x \<in> set (map F cart)"
      then obtain l where "l \<in> set cart" and "x = F l" by auto
      then show "lineOk products x" using F_ok by simp
    qed
  qed
qed

lemma handleRemoveFromCart_lineOk:
  "list_all (lineOk products) cart \<Longrightarrow> list_all (lineOk products) (handleRemoveFromCart cart ident)"
  by (simp add: handleRemoveFromCart_def list_all_iff)

lemma applyOp_inv:
  assumes d: "distinct (map pid products)" and ws: "list_all (\<lambda>p. isWhole (stock p)) products"
    and o: "opOk products op" and i: "cartInv products cart"
  shows "cartInv products (applyOp products cart op)"
proof (cases op)
  case (AddItem product)
  then have m: "product \<in> set products" using o by (simp add: opOk_def)
  then have w: "isWhole (stock product)" using ws by (simp add: list_all_iff)
  show ?thesis using i AddItem
    by (simp add: cartInv_def handleAddToCart_distinct handleAddToCart_whole
          handleAddToCart_lineOk [OF d m w])
next
  case (ChangeQuantity ident delta)
  then have le: "delta = 1 \<or> delta = - 1" using o by (simp add: opOk_def)
  show ?thesis using i ChangeQuantity
    by (simp add: cartInv_def handleUpdateQuantity_distinct handleUpdateQuantity_whole [OF le]
          handleUpdateQuantity_lineOk [OF le ws])
next
  case (RemoveItem ident)
  show ?thesis using i RemoveItem
    by (simp add: cartInv_def handleRemoveFromCart_distinct handleRemoveFromCart_whole
          handleRemoveFromCart_lineOk)
qed

lemma runOps_inv:
  "distinct (map pid products) \<Longrightarrow> list_all (\<lambda>p. isWhole (stock p)) products \<Longrightarrow>
   list_all (opOk products) ops \<Longrightarrow> cartInv products cart \<Longrightarrow>
   cartInv products (runOps products cart ops)"
  unfolding runOps_def
  by (induction ops arbitrary: cart) (simp_all add: applyOp_inv)

text \<open>
  C1, as amended. Over a fixed catalog with distinct product ids in which every stock is a
  whole number, every sequence of addItem (of a product of the catalog), changeQuantity
  (by 1 or -1, the two steps the cart issues) and removeItem, run from the empty cart,
  leaves every cart line with a quantity of at least 1, so never negative, and at most the
  stock of the product the line refers to.
\<close>

theorem cart_quantity_within_stock:
  assumes "distinct (map pid products)"
    and "list_all (\<lambda>p. isWhole (stock p)) products"
    and "list_all (opOk products) ops"
  shows "list_all (lineOk products) (runOps products [] ops)"
  using runOps_inv [of products ops "[]"] assms by (simp add: cartInv_def)

text \<open>
  Scenario: Cooking Oil has stock 8; nine addItem events leave the quantity at 8, and a
  step up is refused, a step down is carried out.
\<close>

theorem cart_quantity_within_stock_witness:
  "distinct (map pid MOCK_PRODUCTS)
   \<and> list_all (\<lambda>p. isWhole (stock p)) MOCK_PRODUCTS
   \<and> list_all (opOk MOCK_PRODUCTS)
        (replicate 9 (AddItem (MOCK_PRODUCTS ! 1)) @ [ChangeQuantity ''2'' 1, ChangeQuantity ''2'' (-1)])
   \<and> map quantity (runOps MOCK_PRODUCTS []
          (replicate 9 (AddItem (MOCK_PRODUCTS ! 1)) @ [ChangeQuantity ''2'' 1])) = [8]
   \<and> list_all (lineOk MOCK_PRODUCTS)
        (runOps MOCK_PRODUCTS []
          (replicate 9 (AddItem (MOCK_PRODUCTS ! 1)) @ [ChangeQuantity ''2'' 1, ChangeQuantity ''2'' (-1)]))"
proof -
  have d: "distinct (map pid MOCK_PRODUCTS)"
    by (simp add: MOCK_PRODUCTS_def)
  have w: "list_all (\<lambda>p. isWhole (stock p)) MOCK_PRODUCTS"
    by (simp add: MOCK_PRODUCTS_def isWhole_def)
  have o: "list_all (opOk MOCK_PRODUCTS)
        (replicate 9 (AddItem (MOCK_PRODUCTS ! 1)) @ [ChangeQuantity ''2'' 1, ChangeQuantity ''2'' (-1)])"
    by (simp add: opOk_def MOCK_PRODUCTS_def list_all_iff)
  have q: "map quantity (runOps MOCK_PRODUCTS []
          (replicate 9 (AddItem (MOCK_PRODUCTS ! 1)) @ [ChangeQuantity ''2'' 1])) = [8]"
    by (simp add: runOps_def handleAddToCart_def handleUpdateQuantity_def getStockStatus_def
          MOCK_PRODUCTS_def Let_def Product.defs CartItem.defs eval_nat_numeral)
  show ?thesis
    using cart_quantity_within_stock [OF d w o] d w o q by simp
qed

text \<open>
  C1 as stated fails over a catalog with a stock that is not a whole number. The inventory
  form reads the initial stock with \<^verbatim>\<open>parseFloat\<close>: entered as 2.5 it gives a product with
  stock 5/2. \<^verbatim>\<open>handleAddToCart\<close> lets a unit through while stock minus quantity is above
  0, so three addItem events take the line to quantity 3, above the stock.
\<close>

theorem cart_quantity_exceeds_stock_counterexample:
  "handleAddSubmit MOCK_PRODUCTS ''9'' flourForm = Inr flour
   \<and> stock flour = 5 / 2
   \<and> distinct (map pid (handleAddProduct MOCK_PRODUCTS flour))
   \<and> map quantity (runOps (handleAddProduct MOCK_PRODUCTS flour) []
        [AddItem flour, AddItem flour, AddItem flour]) = [3]
   \<and> \<not> list_all (lineOk (handleAddProduct MOCK_PRODUCTS flour))
        (runOps (handleAddProduct MOCK_PRODUCTS flour) [] [AddItem flour, AddItem flour, AddItem flour])"
proof -
  have a: "handleAddSubmit MOCK_PRODUCTS ''9'' flourForm = Inr flour"
    by (simp add: handleAddSubmit_def flourForm_def handleInputChange_def initialFormData_def
          flour_def MOCK_PRODUCTS_def truthyStr_def truthyNum_def orZero_def Let_def
          parseFloat_def unsignedLiteral_def exponentPart_def scale10_def digitsVal_def
          digitVal_def isDigit_def isWhiteSpace_def)
  have r: "runOps (handleAddProduct MOCK_PRODUCTS flour) [] [AddItem flour, AddItem flour, AddItem flour]
           = [Product.extend flour (CartItem.fields 3)]"
    by (simp add: runOps_def handleAddToCart_def getStockStatus_def flour_def Let_def
          Product.defs CartItem.defs)
  have d: "distinct (map pid (handleAddProduct MOCK_PRODUCTS flour))"
    by (simp add: handleAddProduct_def MOCK_PRODUCTS_def flour_def)
  show ?thesis
    unfolding r using a d
    by (simp add: lineOk_def handleAddProduct_def flour_def Product.defs CartItem.defs)
qed

section \<open>Properties of the payment check\<close>

text \<open>
  C2. For every cart, payment method and cash text, the payment is valid exactly when the
  cart is not empty and either the method is not CASH or the cash received (the text read
  by \<^verbatim>\<open>parseFloat\<close>, 0 when unreadable) is at least the total; with the empty cart it
  is not valid, whatever the method and the cash text.
\<close>

theorem isPaymentValid_iff:
  "isPaymentValid cart paymentMethod cashReceived =
     (cart \<noteq> [] \<and> (paymentMethod \<noteq> CASH \<or> orZero (parseFloat cashReceived) \<ge> total' (cartTotals cart)))
   \<and> isPaymentValid [] paymentMethod cashReceived = False"
  by (simp add: isPaymentValid_def)

text \<open>Two bags of rice come to 144300 with tax: 150000 in cash pays, 140000 does not.\<close>

theorem isPaymentValid_iff_witness:
  "isPaymentValid [Product.extend (MOCK_PRODUCTS ! 0) (CartItem.fields 2)] CASH ''150000''
   \<and> \<not> isPaymentValid [Product.extend (MOCK_PRODUCTS ! 0) (CartItem.fields 2)] CASH ''140000''
   \<and> isPaymentValid [Product.extend (MOCK_PRODUCTS ! 0) (CartItem.fields 2)] QRIS []
   \<and> \<not> isPaymentValid [] QRIS ''150000''"
  using isPaymentValid_iff [of "[Product.extend (MOCK_PRODUCTS ! 0) (CartItem.fields 2)]" CASH "''150000''"]
    isPaymentValid_iff [of "[Product.extend (MOCK_PRODUCTS ! 0) (CartItem.fields 2)]" CASH "''140000''"]
    isPaymentValid_iff [of "[Product.extend (MOCK_PRODUCTS ! 0) (CartItem.fields 2)]" QRIS "[]"]
    isPaymentValid_iff [of "[]" QRIS "''150000''"]
  by (simp add: cartTotals_def MOCK_PRODUCTS_def Product.defs CartItem.defs orZero_def
        parseFloat_def unsignedLiteral_def isWhiteSpace_def isDigit_def digitsVal_def digitVal_def
        exponentPart_def scale10_def)

text \<open>
  C3. With the method CASH the change is the larger of 0 and cash received minus total;
  when a CASH payment is valid the change is cash received minus total exactly; with any
  other method the change is 0.
\<close>

theorem change_cash:
  "(paymentMethod = CASH \<longrightarrow>
      change cart paymentMethod cashReceived
        = max 0 (orZero (parseFloat cashReceived) - total' (cartTotals cart)))
   \<and> (isPaymentValid cart CASH cashReceived \<longrightarrow>
      change cart CASH cashReceived = orZero (parseFloat cashReceived) - total' (cartTotals cart))
   \<and> (paymentMethod \<noteq> CASH \<longrightarrow> change cart paymentMethod cashReceived = 0)"
  by (simp add: isPaymentValid_def change_def)

theorem change_cash_witness:
  "isPaymentValid [Product.extend (MOCK_PRODUCTS ! 0) (CartItem.fields 2)] CASH ''150000''
   \<and> change [Product.extend (MOCK_PRODUCTS ! 0) (CartItem.fields 2)] CASH ''150000'' = 5700
   \<and> change [Product.extend (MOCK_PRODUCTS ! 0) (CartItem.fields 2)] CASH ''140000'' = 0
   \<and> change [Product.extend (MOCK_PRODUCTS ! 0) (CartItem.fields 2)] DEBIT ''150000'' = 0"
  using change_cash [of CASH "[Product.extend (MOCK_PRODUCTS ! 0) (CartItem.fields 2)]" "''150000''"]
    change_cash [of CASH "[Product.extend (MOCK_PRODUCTS ! 0) (CartItem.fields 2)]" "''140000''"]
    change_cash [of DEBIT "[Product.extend (MOCK_PRODUCTS ! 0) (CartItem.fields 2)]" "''150000''"]
  by (simp add: isPaymentValid_def cartTotals_def MOCK_PRODUCTS_def Product.defs CartItem.defs orZero_def
        parseFloat_def unsignedLiteral_def isWhiteSpace_def isDigit_def digitsVal_def digitVal_def
        exponentPart_def scale10_def)

section \<open>Properties of recording a sale\<close>

lemma sellProducts_fst:
  "fst (sellProducts items ps c) =
     map (\<lambda>p. case find (\<lambda>item. pid item = pid p) items of
                 Some soldItem \<Rightarrow> p\<lparr>stock := stock p - quantity soldItem\<rparr>
               | None \<Rightarrow> p) ps"
  by (induction ps arbitrary: c) (simp_all add: Let_def split: option.splits)

lemma sellProducts_snd:
  "snd (sellProducts items ps c) =
     c + (\<Sum>p\<leftarrow>ps. case find (\<lambda>item. pid item = pid p) items of
                     Some soldItem \<Rightarrow> cost p * quantity soldItem
                   | None \<Rightarrow> 0)"
  by (induction ps arbitrary: c) (simp_all add: Let_def split: option.splits)

lemma find_soldQuantity:
  "distinct (map pid items) \<Longrightarrow>
   soldQuantity items k = (case find (\<lambda>item. pid item = k) items of Some l \<Rightarrow> quantity l | None \<Rightarrow> 0)"
proof (induction items)
  case Nil
  then show ?case by (simp add: soldQuantity_def)
next
  case (Cons a items)
  show ?case
  proof (cases "pid a = k")
    case True
    then have "filter (\<lambda>item. pid item = k) items = []"
      using Cons.prems by (auto simp: filter_empty_conv image_iff)
    then show ?thesis using True by (simp add: soldQuantity_def)
  next
    case False
    then show ?thesis using Cons by (simp add: soldQuantity_def)
  qed
qed

lemma soldQuantity_unsold: "k \<notin> pid ` set items \<Longrightarrow> soldQuantity items k = 0"
proof -
  assume "k \<notin> pid ` set items"
  then have "filter (\<lambda>item. pid item = k) items = []"
    by (auto simp: filter_empty_conv)
  then show ?thesis by (simp add: soldQuantity_def)
qed

lemma sellProducts_pid_cost:
  "map pid (fst (sellProducts items ps c)) = map pid ps
   \<and> map cost (fst (sellProducts items ps c)) = map cost ps"
  by (induction ps arbitrary: c) (simp_all add: Let_def split: option.splits)

lemma sellProducts_snd_cong:
  "map pid ps = map pid qs \<Longrightarrow> map cost ps = map cost qs \<Longrightarrow>
   snd (sellProducts items ps c) = snd (sellProducts items qs c)"
proof (induction ps arbitrary: qs c)
  case Nil
  then show ?case by simp
next
  case (Cons p ps)
  then obtain q qs' where qs: "qs = q # qs'" by (cases qs) auto
  with Cons.prems have h: "pid p = pid q" "cost p = cost q" "map pid ps = map pid qs'" "map cost ps = map cost qs'"
    by simp_all
  show ?case unfolding qs
    using Cons.IH [OF h(3) h(4)] h(1) h(2)
    by (simp add: Let_def split: option.splits)
qed

lemma sum_if_find:
  "distinct (map pid items) \<Longrightarrow>
   (\<Sum>l\<leftarrow>items. if pid l = k then f l else (0::rat)) =
   (case find (\<lambda>l. pid l = k) items of Some l \<Rightarrow> f l | None \<Rightarrow> 0)"
proof (induction items)
  case Nil
  then show ?case by simp
next
  case (Cons a items)
  show ?case
  proof (cases "pid a = k")
    case True
    then have "\<And>l. l \<in> set items \<Longrightarrow> pid l \<noteq> k" using Cons.prems by (auto simp: image_iff)
    then have "(\<Sum>l\<leftarrow>items. if pid l = k then f l else 0) = 0"
      by (simp add: sum_list_0 cong: map_cong)
    then show ?thesis using True by simp
  next
    case False
    then show ?thesis using Cons by simp
  qed
qed

lemma sum_list_swap:
  fixes F :: "'a \<Rightarrow> 'b \<Rightarrow> rat"
  shows "(\<Sum>x\<leftarrow>xs. \<Sum>y\<leftarrow>ys. F x y) = (\<Sum>y\<leftarrow>ys. \<Sum>x\<leftarrow>xs. F x y)"
  by (induction xs) (simp_all add: sum_list_addf)

lemma cost_by_lines:
  assumes dp: "distinct (map pid ps)" and di: "distinct (map pid items)"
  shows "(\<Sum>p\<leftarrow>ps. case find (\<lambda>item. pid item = pid p) items of
                     Some soldItem \<Rightarrow> cost p * quantity soldItem
                   | None \<Rightarrow> 0)
         = (\<Sum>item\<leftarrow>items. lineCost ps item)"
proof -
  have "(\<Sum>p\<leftarrow>ps. case find (\<lambda>item. pid item = pid p) items of
                     Some soldItem \<Rightarrow> cost p * quantity soldItem
                   | None \<Rightarrow> 0)
        = (\<Sum>p\<leftarrow>ps. \<Sum>l\<leftarrow>items. if pid l = pid p then cost p * quantity l else 0)"
    by (simp add: sum_if_find [OF di])
  also have "\<dots> = (\<Sum>l\<leftarrow>items. \<Sum>p\<leftarrow>ps. if pid l = pid p then cost p * quantity l else 0)"
    by (rule sum_list_swap)
  also have "\<dots> = (\<Sum>l\<leftarrow>items. \<Sum>p\<leftarrow>ps. if pid p = pid l then cost p * quantity l else 0)"
    by (simp add: eq_commute)
  also have "\<dots> = (\<Sum>item\<leftarrow>items. lineCost ps item)"
    by (simp add: sum_if_find [OF dp] lineCost_def)
  finally show ?thesis .
qed

lemma runOps_distinct: "distinct (map pid cart) \<Longrightarrow> distinct (map pid (runOps products cart ops))"
  unfolding runOps_def
proof (induction ops arbitrary: cart)
  case Nil
  then show ?case by simp
next
  case (Cons op ops)
  have "distinct (map pid (applyOp products cart op))"
    using Cons.prems
    by (cases op)
       (simp_all add: handleAddToCart_distinct handleUpdateQuantity_distinct handleRemoveFromCart_distinct)
  then show ?case using Cons.IH by simp
qed

text \<open>The lines of a transaction that checkout builds from a cart reached by cart events
  have distinct product ids.\<close>

lemma completed_transaction_distinct:
  "handleProcessPayment uuid now confirmed isProcessing (runOps products [] ops) paymentMethod cashReceived
     = Some transaction \<Longrightarrow>
   distinct (map pid (t_items transaction))"
  using runOps_distinct [of "[]" products ops]
  by (auto simp: handleProcessPayment_def split: if_splits)

lemma exampleSale_eq:
  "exampleSale =
     \<lparr>t_id = ''t-1'', t_date = ''2024-05-01T10:00:00.000Z'',
      t_items = [Product.extend (MOCK_PRODUCTS ! 0) (CartItem.fields 2),
                 Product.extend (MOCK_PRODUCTS ! 1) (CartItem.fields 1)],
      t_subtotal = 165000, t_tax = 18150, t_total = 183150, t_paymentMethod = QRIS\<rparr>"
  by (simp add: exampleSale_def handleProcessPayment_def isPaymentValid_def isAnomaly_def
        ANOMALY_THRESHOLD_def cartTotals_def runOps_def handleAddToCart_def getStockStatus_def
        MOCK_PRODUCTS_def Let_def Product.defs CartItem.defs)

lemma exampleSale2_eq:
  "exampleSale2 =
     \<lparr>t_id = ''t-2'', t_date = ''2024-05-01T11:00:00.000Z'',
      t_items = [Product.extend (MOCK_PRODUCTS ! 2) (CartItem.fields 3)],
      t_subtotal = 12000, t_tax = 1320, t_total = 13320, t_paymentMethod = CASH\<rparr>"
  by (simp add: exampleSale2_def handleProcessPayment_def isPaymentValid_def isAnomaly_def
        ANOMALY_THRESHOLD_def cartTotals_def runOps_def handleAddToCart_def getStockStatus_def
        MOCK_PRODUCTS_def Let_def Product.defs CartItem.defs orZero_def
        parseFloat_def unsignedLiteral_def isWhiteSpace_def isDigit_def digitsVal_def digitVal_def
        exponentPart_def scale10_def)

text \<open>
  C5. For every completed transaction (its lines, a snapshot of the cart, have distinct
  product ids), recording the sale takes each product to a product with the stock lowered
  by exactly the quantity sold of it and with every other field as before, and a product
  with no line in the transaction is unchanged.
\<close>

theorem handleTransactionComplete_stock:
  assumes "distinct (map pid (t_items transaction))"
  shows "list_all2
           (\<lambda>p p'. stock p' = stock p - soldQuantity (t_items transaction) (pid p)
                  \<and> p'\<lparr>stock := stock p\<rparr> = p
                  \<and> (pid p \<notin> pid ` set (t_items transaction) \<longrightarrow> p' = p))
           (st_products s) (st_products (handleTransactionComplete s transaction))"
proof -
  let ?items = "t_items transaction"
  let ?g = "\<lambda>p. case find (\<lambda>item. pid item = pid p) ?items of
                 Some soldItem \<Rightarrow> p\<lparr>stock := stock p - quantity soldItem\<rparr>
               | None \<Rightarrow> p"
  have res: "st_products (handleTransactionComplete s transaction) = map ?g (st_products s)"
    by (simp add: handleTransactionComplete_def Let_def sellProducts_fst)
  have each: "stock (?g p) = stock p - soldQuantity ?items (pid p)
                  \<and> (?g p)\<lparr>stock := stock p\<rparr> = p
                  \<and> (pid p \<notin> pid ` set ?items \<longrightarrow> ?g p = p)" for p
  proof (cases "find (\<lambda>item. pid item = pid p) ?items")
    case None
    then show ?thesis
      by (simp add: find_soldQuantity [OF assms])
  next
    case (Some l)
    then have "pid p \<in> pid ` set ?items"
      by (rule find_Some_image)
    then show ?thesis using Some
      by (simp add: find_soldQuantity [OF assms])
  qed
  show ?thesis
    unfolding res list_all2_map2
    by (rule list_all2_refl) (rule each)
qed

text \<open>Two bags of rice and a bottle of oil: the stocks 24 and 8 become 22 and 7, the
  others stay.\<close>

theorem handleTransactionComplete_stock_witness:
  "distinct (map pid (t_items exampleSale))
   \<and> map stock (st_products (handleTransactionComplete initialState exampleSale))
       = [22, 7, 150, 85, 12, 30, 45, 3]
   \<and> list_all2
           (\<lambda>p p'. stock p' = stock p - soldQuantity (t_items exampleSale) (pid p)
                  \<and> p'\<lparr>stock := stock p\<rparr> = p
                  \<and> (pid p \<in> pid ` set (t_items exampleSale) \<or> p' = p))
           (st_products initialState) (st_products (handleTransactionComplete initialState exampleSale))"
proof -
  have d: "distinct (map pid (t_items exampleSale))"
    by (simp add: exampleSale_eq MOCK_PRODUCTS_def Product.defs CartItem.defs)
  have st: "map stock (st_products (handleTransactionComplete initialState exampleSale))
       = [22, 7, 150, 85, 12, 30, 45, 3]"
    by (simp add: exampleSale_eq handleTransactionComplete_def initialState_def Let_def
          MOCK_PRODUCTS_def Product.defs CartItem.defs)
  have "list_all2
           (\<lambda>p p'. stock p' = stock p - soldQuantity (t_items exampleSale) (pid p)
                  \<and> p'\<lparr>stock := stock p\<rparr> = p
                  \<and> (pid p \<in> pid ` set (t_items exampleSale) \<or> p' = p))
           (st_products initialState) (st_products (handleTransactionComplete initialState exampleSale))"
    by (rule list_all2_mono [OF handleTransactionComplete_stock [OF d, of initialState]]) blast
  with d st show ?thesis by simp
qed

section \<open>Properties of the summary update\<close>

lemma floor_rat_numeral: "\<lfloor>(numeral a :: rat) / numeral b\<rfloor> = numeral a div numeral b"
  using floor_divide_of_int_eq [of "numeral a" "numeral b", where ?'a = rat] by simp

lemma ceiling_rat_numeral: "\<lceil>(numeral a :: rat) / numeral b\<rceil> = - (- numeral a div numeral b)"
  using ceiling_divide_eq_div [of "numeral a" "numeral b", where ?'a = rat] by simp

lemmas double_eval = roundToDouble_def floorLog2_def pow2_def roundHalfEven_def Let_def
  floor_rat_numeral ceiling_rat_numeral

lemma sellProductsFl_snd:
  "snd (sellProductsFl fl items ps c) =
     foldl (\<lambda>acc p. case find (\<lambda>item. pid item = pid p) items of
                        Some soldItem \<Rightarrow> fl (acc + fl (cost p * quantity soldItem))
                      | None \<Rightarrow> acc) c ps"
  by (induction ps arbitrary: c) (simp_all add: Let_def split: option.splits)

lemma sellProductsFl_pid_cost:
  "map pid (fst (sellProductsFl fl items ps c)) = map pid ps
   \<and> map cost (fst (sellProductsFl fl items ps c)) = map cost ps"
  by (induction ps arbitrary: c) (simp_all add: Let_def split: option.splits)

lemma sellProductsFl_snd_cong:
  "map pid ps = map pid qs \<Longrightarrow> map cost ps = map cost qs \<Longrightarrow>
   snd (sellProductsFl fl items ps c) = snd (sellProductsFl fl items qs c)"
proof (induction ps arbitrary: qs c)
  case Nil
  then show ?case by simp
next
  case (Cons p ps)
  then obtain q qs' where qs: "qs = q # qs'" by (cases qs) auto
  with Cons.prems have h: "pid p = pid q" "cost p = cost q" "map pid ps = map pid qs'" "map cost ps = map cost qs'"
    by simp_all
  show ?case unfolding qs
    using Cons.IH [OF h(3) h(4)] h(1) h(2)
    by (simp add: Let_def split: option.splits)
qed

lemma sellProductsFl_exact: "sellProductsFl (\<lambda>x. x) items ps c = sellProducts items ps c"
  by (induction ps arbitrary: c) (simp_all add: Let_def split: option.splits)

lemma handleTransactionCompleteFl_exact:
  "handleTransactionCompleteFl (\<lambda>x. x) s transaction = handleTransactionComplete s transaction"
  by (simp add: handleTransactionCompleteFl_def handleTransactionComplete_def sellProductsFl_exact)

lemma transactionCostFl_after:
  "transactionCostFl fl (st_products (handleTransactionCompleteFl fl s t')) items
     = transactionCostFl fl (st_products s) items"
  unfolding transactionCostFl_def
  by (rule sellProductsFl_snd_cong)
     (simp_all add: handleTransactionCompleteFl_def Let_def sellProductsFl_pid_cost)

lemma summary_after:
  "st_summary (handleTransactionCompleteFl fl s transaction) =
     (st_summary s)
       \<lparr>revenue := fl (revenue (st_summary s) + t_subtotal transaction),
        cogs := fl (cogs (st_summary s) + transactionCostFl fl (st_products s) (t_items transaction)),
        grossProfit := fl (grossProfit (st_summary s) + saleGrossProfit fl (st_products s) transaction),
        netProfit := fl (netProfit (st_summary s) + saleGrossProfit fl (st_products s) transaction)\<rparr>"
  by (simp add: handleTransactionCompleteFl_def Let_def transactionCostFl_def saleGrossProfit_def)

lemma two_sales_commute:
  assumes "fl (revenue (st_summary s) + t_subtotal t1) = revenue (st_summary s) + t_subtotal t1"
    and "fl (revenue (st_summary s) + t_subtotal t2) = revenue (st_summary s) + t_subtotal t2"
    and "fl (cogs (st_summary s) + transactionCostFl fl (st_products s) (t_items t1))
           = cogs (st_summary s) + transactionCostFl fl (st_products s) (t_items t1)"
    and "fl (cogs (st_summary s) + transactionCostFl fl (st_products s) (t_items t2))
           = cogs (st_summary s) + transactionCostFl fl (st_products s) (t_items t2)"
    and "fl (grossProfit (st_summary s) + saleGrossProfit fl (st_products s) t1)
           = grossProfit (st_summary s) + saleGrossProfit fl (st_products s) t1"
    and "fl (grossProfit (st_summary s) + saleGrossProfit fl (st_products s) t2)
           = grossProfit (st_summary s) + saleGrossProfit fl (st_products s) t2"
    and "fl (netProfit (st_summary s) + saleGrossProfit fl (st_products s) t1)
           = netProfit (st_summary s) + saleGrossProfit fl (st_products s) t1"
    and "fl (netProfit (st_summary s) + saleGrossProfit fl (st_products s) t2)
           = netProfit (st_summary s) + saleGrossProfit fl (st_products s) t2"
  shows "st_summary (handleTransactionCompleteFl fl (handleTransactionCompleteFl fl s t1) t2)
       = st_summary (handleTransactionCompleteFl fl (handleTransactionCompleteFl fl s t2) t1)"
proof -
  have g: "saleGrossProfit fl (st_products (handleTransactionCompleteFl fl s t')) t
             = saleGrossProfit fl (st_products s) t" for t t'
    by (simp add: saleGrossProfit_def transactionCostFl_after)
  have a: "x + y + z = x + z + y" for x y z :: rat
    by simp
  show ?thesis
    unfolding summary_after [of fl "handleTransactionCompleteFl fl s t1" t2]
      summary_after [of fl "handleTransactionCompleteFl fl s t2" t1]
      transactionCostFl_after g
    unfolding summary_after [of fl s t1] summary_after [of fl s t2]
    using assms
    by (simp add: a [of "revenue (st_summary s)" "t_subtotal t1" "t_subtotal t2"]
          a [of "cogs (st_summary s)" "transactionCostFl fl (st_products s) (t_items t1)"
                "transactionCostFl fl (st_products s) (t_items t2)"]
          a [of "grossProfit (st_summary s)" "saleGrossProfit fl (st_products s) t1"
                "saleGrossProfit fl (st_products s) t2"]
          a [of "netProfit (st_summary s)" "saleGrossProfit fl (st_products s) t1"
                "saleGrossProfit fl (st_products s) t2"])
qed

text \<open>
  C6, as amended. Recording a sale sets the revenue to the sum of revenue and subtotal (not
  the total, so no tax), the cost of goods sold to the sum of it and the transaction cost,
  and the gross and the net profit each to the sum of it and the rounded difference of
  subtotal and transaction cost, every sum as the host rounds it; the expenses stay. The
  transaction cost adds up, product by product, cost times the quantity of the line sold
  of it; in exact arithmetic that is the sum over the products, and with distinct product
  ids and distinct line ids the sum over the lines of the product's cost times the line's
  quantity. The summary after two sales is the same in either order whenever the first
  addition to each of the four fields is exact in both orders, as it is in exact
  arithmetic.
\<close>

theorem handleTransactionComplete_summary:
  "st_summary (handleTransactionCompleteFl fl s transaction) =
     (st_summary s)
       \<lparr>revenue := fl (revenue (st_summary s) + t_subtotal transaction),
        cogs := fl (cogs (st_summary s) + transactionCostFl fl (st_products s) (t_items transaction)),
        grossProfit := fl (grossProfit (st_summary s) + saleGrossProfit fl (st_products s) transaction),
        netProfit := fl (netProfit (st_summary s) + saleGrossProfit fl (st_products s) transaction)\<rparr>
   \<and> expenses (st_summary (handleTransactionCompleteFl fl s transaction)) = expenses (st_summary s)
   \<and> saleGrossProfit fl (st_products s) transaction
       = fl (t_subtotal transaction - transactionCostFl fl (st_products s) (t_items transaction))
   \<and> transactionCostFl fl (st_products s) (t_items transaction)
       = foldl (\<lambda>acc p. case find (\<lambda>item. pid item = pid p) (t_items transaction) of
                           Some soldItem \<Rightarrow> fl (acc + fl (cost p * quantity soldItem))
                         | None \<Rightarrow> acc) 0 (st_products s)
   \<and> handleTransactionCompleteFl (\<lambda>x. x) s transaction = handleTransactionComplete s transaction
   \<and> transactionCostFl (\<lambda>x. x) (st_products s) (t_items transaction)
       = (\<Sum>p\<leftarrow>st_products s.
            case find (\<lambda>item. pid item = pid p) (t_items transaction) of
              Some soldItem \<Rightarrow> cost p * quantity soldItem
            | None \<Rightarrow> 0)
   \<and> (distinct (map pid (st_products s)) \<and> distinct (map pid (t_items transaction)) \<longrightarrow>
        transactionCostFl (\<lambda>x. x) (st_products s) (t_items transaction)
          = (\<Sum>item\<leftarrow>t_items transaction. lineCost (st_products s) item))
   \<and> (fl (revenue (st_summary s) + t_subtotal transaction)
          = revenue (st_summary s) + t_subtotal transaction
        \<and> fl (revenue (st_summary s) + t_subtotal t2) = revenue (st_summary s) + t_subtotal t2
        \<and> fl (cogs (st_summary s) + transactionCostFl fl (st_products s) (t_items transaction))
          = cogs (st_summary s) + transactionCostFl fl (st_products s) (t_items transaction)
        \<and> fl (cogs (st_summary s) + transactionCostFl fl (st_products s) (t_items t2))
          = cogs (st_summary s) + transactionCostFl fl (st_products s) (t_items t2)
        \<and> fl (grossProfit (st_summary s) + saleGrossProfit fl (st_products s) transaction)
          = grossProfit (st_summary s) + saleGrossProfit fl (st_products s) transaction
        \<and> fl (grossProfit (st_summary s) + saleGrossProfit fl (st_products s) t2)
          = grossProfit (st_summary s) + saleGrossProfit fl (st_products s) t2
        \<and> fl (netProfit (st_summary s) + saleGrossProfit fl (st_products s) transaction)
          = netProfit (st_summary s) + saleGrossProfit fl (st_products s) transaction
        \<and> fl (netProfit (st_summary s) + saleGrossProfit fl (st_products s) t2)
          = netProfit (st_summary s) + saleGrossProfit fl (st_products s) t2
        \<longrightarrow>
        st_summary (handleTransactionCompleteFl fl (handleTransactionCompleteFl fl s transaction) t2)
          = st_summary (handleTransactionCompleteFl fl (handleTransactionCompleteFl fl s t2) transaction))"
proof -
  have exact: "transactionCostFl (\<lambda>x. x) (st_products s) (t_items transaction)
       = (\<Sum>p\<leftarrow>st_products s.
            case find (\<lambda>item. pid item = pid p) (t_items transaction) of
              Some soldItem \<Rightarrow> cost p * quantity soldItem
            | None \<Rightarrow> 0)"
    by (simp add: transactionCostFl_def sellProductsFl_exact sellProducts_snd)
  have lines: "distinct (map pid (st_products s)) \<and> distinct (map pid (t_items transaction)) \<longrightarrow>
        transactionCostFl (\<lambda>x. x) (st_products s) (t_items transaction)
          = (\<Sum>item\<leftarrow>t_items transaction. lineCost (st_products s) item)"
    unfolding exact using cost_by_lines [of "st_products s" "t_items transaction"] by simp
  have tc: "transactionCostFl fl (st_products s) (t_items transaction)
       = foldl (\<lambda>acc p. case find (\<lambda>item. pid item = pid p) (t_items transaction) of
                           Some soldItem \<Rightarrow> fl (acc + fl (cost p * quantity soldItem))
                         | None \<Rightarrow> acc) 0 (st_products s)"
    by (simp add: transactionCostFl_def sellProductsFl_snd)
  have ex: "expenses (st_summary (handleTransactionCompleteFl fl s transaction)) = expenses (st_summary s)"
    by (simp add: summary_after)
  have gp: "saleGrossProfit fl (st_products s) transaction
       = fl (t_subtotal transaction - transactionCostFl fl (st_products s) (t_items transaction))"
    by (simp add: saleGrossProfit_def)
  have comm: "fl (revenue (st_summary s) + t_subtotal transaction)
          = revenue (st_summary s) + t_subtotal transaction
        \<and> fl (revenue (st_summary s) + t_subtotal t2) = revenue (st_summary s) + t_subtotal t2
        \<and> fl (cogs (st_summary s) + transactionCostFl fl (st_products s) (t_items transaction))
          = cogs (st_summary s) + transactionCostFl fl (st_products s) (t_items transaction)
        \<and> fl (cogs (st_summary s) + transactionCostFl fl (st_products s) (t_items t2))
          = cogs (st_summary s) + transactionCostFl fl (st_products s) (t_items t2)
        \<and> fl (grossProfit (st_summary s) + saleGrossProfit fl (st_products s) transaction)
          = grossProfit (st_summary s) + saleGrossProfit fl (st_products s) transaction
        \<and> fl (grossProfit (st_summary s) + saleGrossProfit fl (st_products s) t2)
          = grossProfit (st_summary s) + saleGrossProfit fl (st_products s) t2
        \<and> fl (netProfit (st_summary s) + saleGrossProfit fl (st_products s) transaction)
          = netProfit (st_summary s) + saleGrossProfit fl (st_products s) transaction
        \<and> fl (netProfit (st_summary s) + saleGrossProfit fl (st_products s) t2)
          = netProfit (st_summary s) + saleGrossProfit fl (st_products s) t2
        \<longrightarrow>
        st_summary (handleTransactionCompleteFl fl (handleTransactionCompleteFl fl s transaction) t2)
          = st_summary (handleTransactionCompleteFl fl (handleTransactionCompleteFl fl s t2) transaction)"
  proof (intro impI, elim conjE)
    assume "fl (revenue (st_summary s) + t_subtotal transaction)
          = revenue (st_summary s) + t_subtotal transaction"
      and "fl (revenue (st_summary s) + t_subtotal t2) = revenue (st_summary s) + t_subtotal t2"
      and "fl (cogs (st_summary s) + transactionCostFl fl (st_products s) (t_items transaction))
          = cogs (st_summary s) + transactionCostFl fl (st_products s) (t_items transaction)"
      and "fl (cogs (st_summary s) + transactionCostFl fl (st_products s) (t_items t2))
          = cogs (st_summary s) + transactionCostFl fl (st_products s) (t_items t2)"
      and "fl (grossProfit (st_summary s) + saleGrossProfit fl (st_products s) transaction)
          = grossProfit (st_summary s) + saleGrossProfit fl (st_products s) transaction"
      and "fl (grossProfit (st_summary s) + saleGrossProfit fl (st_products s) t2)
          = grossProfit (st_summary s) + saleGrossProfit fl (st_products s) t2"
      and "fl (netProfit (st_summary s) + saleGrossProfit fl (st_products s) transaction)
          = netProfit (st_summary s) + saleGrossProfit fl (st_products s) transaction"
      and "fl (netProfit (st_summary s) + saleGrossProfit fl (st_products s) t2)
          = netProfit (st_summary s) + saleGrossProfit fl (st_products s) t2"
    then show "st_summary (handleTransactionCompleteFl fl (handleTransactionCompleteFl fl s transaction) t2)
          = st_summary (handleTransactionCompleteFl fl (handleTransactionCompleteFl fl s t2) transaction)"
      by (rule two_sales_commute)
  qed
  show ?thesis
    by (intro conjI) (rule summary_after ex gp tc handleTransactionCompleteFl_exact exact lines comm)+
qed

text \<open>
  The two example sales have whole amounts: in double arithmetic every sum is exact, the
  first sale gives the summary shown, and the two orders give the same summary.
\<close>

theorem handleTransactionComplete_summary_witness:
  "distinct (map pid (st_products initialState)) \<and> distinct (map pid (t_items exampleSale))
   \<and> transactionCostFl (\<lambda>x. x) (st_products initialState) (t_items exampleSale) = 128000
   \<and> (\<Sum>item\<leftarrow>t_items exampleSale. lineCost (st_products initialState) item) = 128000
   \<and> st_summary (handleTransactionCompleteFl roundToDouble initialState exampleSale)
       = \<lparr>revenue = 15565000, cogs = 9928000, grossProfit = 5637000, expenses = 2100000,
          netProfit = 3537000\<rparr>
   \<and> st_summary (handleTransactionCompleteFl roundToDouble
          (handleTransactionCompleteFl roundToDouble initialState exampleSale) exampleSale2)
       = st_summary (handleTransactionCompleteFl roundToDouble
          (handleTransactionCompleteFl roundToDouble initialState exampleSale2) exampleSale)"
proof -
  have d1: "distinct (map pid (st_products initialState))"
    by (simp add: initialState_def MOCK_PRODUCTS_def)
  have d2: "distinct (map pid (t_items exampleSale))"
    by (simp add: exampleSale_eq MOCK_PRODUCTS_def Product.defs CartItem.defs)
  have tc0: "transactionCostFl (\<lambda>x. x) (st_products initialState) (t_items exampleSale) = 128000"
    by (simp add: transactionCostFl_def exampleSale_eq initialState_def
          MOCK_PRODUCTS_def Product.defs CartItem.defs Let_def)
  have tc1: "transactionCostFl roundToDouble (st_products initialState) (t_items exampleSale) = 128000"
    by (simp add: transactionCostFl_def exampleSale_eq initialState_def
          MOCK_PRODUCTS_def Product.defs CartItem.defs double_eval)
  have tc2: "transactionCostFl roundToDouble (st_products initialState) (t_items exampleSale2) = 7500"
    by (simp add: transactionCostFl_def exampleSale2_eq initialState_def
          MOCK_PRODUCTS_def Product.defs CartItem.defs double_eval)
  have g1: "saleGrossProfit roundToDouble (st_products initialState) exampleSale = 37000"
    unfolding saleGrossProfit_def tc1 by (simp add: exampleSale_eq double_eval)
  have g2: "saleGrossProfit roundToDouble (st_products initialState) exampleSale2 = 4500"
    unfolding saleGrossProfit_def tc2 by (simp add: exampleSale2_eq double_eval)
  have s1: "t_subtotal exampleSale = 165000" "t_subtotal exampleSale2 = 12000"
    by (simp_all add: exampleSale_eq exampleSale2_eq)
  have sm: "st_summary initialState = INITIAL_SUMMARY"
    by (simp add: initialState_def)
  have r: "roundToDouble 15565000 = 15565000" "roundToDouble 15412000 = 15412000"
      "roundToDouble 9928000 = 9928000" "roundToDouble 9807500 = 9807500"
      "roundToDouble 5637000 = 5637000" "roundToDouble 5604500 = 5604500"
      "roundToDouble 3537000 = 3537000" "roundToDouble 3504500 = 3504500"
    by (simp_all add: double_eval)
  note T = handleTransactionComplete_summary
             [of roundToDouble initialState exampleSale exampleSale2, unfolded tc1 tc2 g1 g2 s1 sm]
  show ?thesis
    using T d1 d2 tc0
      handleTransactionComplete_summary [of "\<lambda>x. x" initialState exampleSale exampleSale2]
    by (simp add: INITIAL_SUMMARY_def r)
qed

text \<open>
  C6 as stated fails in the order of two sales. With the prices 700001.01 and 1.02, each at
  cost 1, the sales add 700000.01 and 0.02 (as doubles) to the net profit 3500000: the
  first then the second gives the double below 4200000.03, the second then the first the
  double above it.
\<close>

theorem two_sales_order_counterexample:
  "netProfit (st_summary (handleTransactionCompleteFl roundToDouble
       (handleTransactionCompleteFl roundToDouble centState (centSale generator)) (centSale candy)))
     = 2254857846506127 / 536870912
   \<and> netProfit (st_summary (handleTransactionCompleteFl roundToDouble
       (handleTransactionCompleteFl roundToDouble centState (centSale candy)) (centSale generator)))
     = 4509715693012255 / 1073741824
   \<and> st_summary (handleTransactionCompleteFl roundToDouble
       (handleTransactionCompleteFl roundToDouble centState (centSale generator)) (centSale candy))
     \<noteq> st_summary (handleTransactionCompleteFl roundToDouble
       (handleTransactionCompleteFl roundToDouble centState (centSale candy)) (centSale generator))"
proof -
  have cA: "transactionCostFl roundToDouble [generator, candy] (t_items (centSale generator)) = 1"
    by (simp add: transactionCostFl_def centSale_def generator_def candy_def
          Product.defs CartItem.defs double_eval)
  have cB: "transactionCostFl roundToDouble [generator, candy] (t_items (centSale candy)) = 1"
    by (simp add: transactionCostFl_def centSale_def generator_def candy_def
          Product.defs CartItem.defs double_eval)
  have sA: "t_subtotal (centSale generator) = 3006481445116969 / 4294967296"
    by (simp add: centSale_def generator_def double_eval)
  have sB: "t_subtotal (centSale candy) = 2296835809958953 / 2251799813685248"
    by (simp add: centSale_def candy_def double_eval)
  have gA: "saleGrossProfit roundToDouble [generator, candy] (centSale generator)
              = 3006477150149673 / 4294967296"
    unfolding saleGrossProfit_def cA sA by (simp add: double_eval)
  have gB: "saleGrossProfit roundToDouble [generator, candy] (centSale candy)
              = 45035996273705 / 2251799813685248"
    unfolding saleGrossProfit_def cB sB by (simp add: double_eval)
  have g: "saleGrossProfit roundToDouble (st_products (handleTransactionCompleteFl roundToDouble s t')) t
             = saleGrossProfit roundToDouble (st_products s) t" for s t t'
    by (simp add: saleGrossProfit_def transactionCostFl_after)
  have np: "netProfit (st_summary (handleTransactionCompleteFl roundToDouble s t))
             = roundToDouble (netProfit (st_summary s) + saleGrossProfit roundToDouble (st_products s) t)"
    for s t
    by (simp add: summary_after)
  have n0: "netProfit (st_summary centState) = 3500000" "st_products centState = [generator, candy]"
    by (simp_all add: centState_def INITIAL_SUMMARY_def)
  have nA: "roundToDouble (3500000 + 3006477150149673 / 4294967296) = 2254857835768709 / 536870912"
    by (simp add: double_eval)
  have nB: "roundToDouble (3500000 + 45035996273705 / 2251799813685248) = 7516192810949673 / 2147483648"
    by (simp add: double_eval)
  have nAB: "roundToDouble (2254857835768709 / 536870912 + 45035996273705 / 2251799813685248)
               = 2254857846506127 / 536870912"
    by (simp add: double_eval)
  have nBA: "roundToDouble (7516192810949673 / 2147483648 + 3006477150149673 / 4294967296)
               = 4509715693012255 / 1073741824"
    by (simp add: double_eval)
  have o1: "netProfit (st_summary (handleTransactionCompleteFl roundToDouble
       (handleTransactionCompleteFl roundToDouble centState (centSale generator)) (centSale candy)))
     = 2254857846506127 / 536870912"
    by (simp only: np g n0 gA gB nA nAB)
  have o2: "netProfit (st_summary (handleTransactionCompleteFl roundToDouble
       (handleTransactionCompleteFl roundToDouble centState (centSale candy)) (centSale generator)))
     = 4509715693012255 / 1073741824"
    by (simp only: np g n0 gA gB nB nBA)
  have ne: "(2254857846506127 / 536870912 :: rat) \<noteq> 4509715693012255 / 1073741824"
    by simp
  have "st_summary (handleTransactionCompleteFl roundToDouble
       (handleTransactionCompleteFl roundToDouble centState (centSale generator)) (centSale candy))
     \<noteq> st_summary (handleTransactionCompleteFl roundToDouble
       (handleTransactionCompleteFl roundToDouble centState (centSale candy)) (centSale generator))"
    using o1 o2 ne by (metis (no_types))
  with o1 o2 show ?thesis by simp
qed

section \<open>Properties of the import staging\<close>

lemmas number_eval =
  parseFloat_def unsignedLiteral_def exponentPart_def scale10_def digitsVal_def digitVal_def
  isDigit_def isWhiteSpace_def orZero_def

lemmas string_eval =
  trim_def toLowerCase_def toUpperCase_def formatHeader_def stripNonNumeric_def truthyStr_def
  getField_def parseRow_def

lemma trim_Nil_iff: "(trim v = []) = list_all isWhiteSpace v"
proof
  assume t: "trim v = []"
  then have "dropWhile isWhiteSpace (rev (dropWhile isWhiteSpace v)) = []"
    unfolding trim_def by (simp only: rev_is_Nil_conv)
  then have "\<forall>c \<in> set (rev (dropWhile isWhiteSpace v)). isWhiteSpace c"
    by (rule dropWhile_eq_Nil_conv [THEN iffD1])
  then have a: "\<forall>c \<in> set (dropWhile isWhiteSpace v). isWhiteSpace c"
    by (simp only: set_rev)
  have e: "dropWhile isWhiteSpace v = []"
  proof (rule ccontr)
    assume n: "dropWhile isWhiteSpace v \<noteq> []"
    then have "\<not> isWhiteSpace (hd (dropWhile isWhiteSpace v))" by (rule hd_dropWhile)
    moreover have "hd (dropWhile isWhiteSpace v) \<in> set (dropWhile isWhiteSpace v)"
      using n by (rule hd_in_set)
    ultimately show False using a by blast
  qed
  have "\<forall>c \<in> set v. isWhiteSpace c"
    using e by (rule dropWhile_eq_Nil_conv [THEN iffD1])
  then show "list_all isWhiteSpace v"
    by (simp only: list_all_iff)
next
  assume "list_all isWhiteSpace v"
  then have "\<forall>c \<in> set v. isWhiteSpace c"
    by (simp only: list_all_iff)
  then have e: "dropWhile isWhiteSpace v = []"
    by (rule dropWhile_eq_Nil_conv [THEN iffD2])
  show "trim v = []"
    unfolding trim_def e by simp
qed

lemma startsWith_iff: "startsWith s sub = (\<exists>q. s = sub @ q)"
  by (induction s sub rule: startsWith.induct) auto

lemma includesStr_iff: "includesStr s sub = (\<exists>p q. s = p @ sub @ q)"
proof (induction s)
  case Nil
  then show ?case by auto
next
  case (Cons c s)
  show ?case
  proof
    assume "includesStr (c # s) sub"
    then consider "startsWith (c # s) sub" | "includesStr s sub" by auto
    then show "\<exists>p q. c # s = p @ sub @ q"
    proof cases
      case 1
      then obtain q where "c # s = sub @ q" unfolding startsWith_iff by blast
      then have "c # s = [] @ sub @ q" by simp
      then show ?thesis by blast
    next
      case 2
      then obtain p q where "s = p @ sub @ q" using Cons.IH by blast
      then have "c # s = (c # p) @ sub @ q" by simp
      then show ?thesis by blast
    qed
  next
    assume "\<exists>p q. c # s = p @ sub @ q"
    then obtain p q where e: "c # s = p @ sub @ q" by blast
    show "includesStr (c # s) sub"
    proof (cases p)
      case Nil
      then have "startsWith (c # s) sub" using e unfolding startsWith_iff by auto
      then show ?thesis by simp
    next
      case (Cons d p')
      then have "s = p' @ sub @ q" using e by simp
      then have "includesStr s sub" using Cons.IH by blast
      then show ?thesis by simp
    qed
  qed
qed

lemma stripNonNumeric_filter:
  "stripNonNumeric v = filter (\<lambda>ch. ch \<in> set ''0123456789.-'') v"
  unfolding stripNonNumeric_def
  by (rule filter_cong) (auto simp: isDigit_def)

lemma parseFloat_zero: "parseFloat ''0'' = Some 0"
  by (simp add: number_eval)

lemma checkField_rules:
  "checkField Date_parse row key =
     (if headerPasses Date_parse row key then None else Some (headerReason row key))"
proof -
  have n: "(case parseFloat (if truthyStr c then stripNonNumeric (the c) else ''0'') of
              None \<Rightarrow> True | Some num \<Rightarrow> num < 0)
           = (\<not> (case cellNumber c of None \<Rightarrow> False | Some n \<Rightarrow> 0 \<le> n))" for c
    by (cases c)
       (auto simp: truthyStr_def cellNumber_def parseFloat_zero stripNonNumeric_filter
             split: option.splits)
  have b: "(case c of None \<Rightarrow> True | Some v \<Rightarrow> v = [] \<or> trim v = []) = cellBlank c" for c
    by (cases c) (auto simp: cellBlank_def trim_Nil_iff)
  have d: "(case c of None \<Rightarrow> True | Some v \<Rightarrow> v = [] \<or> Date_parse v = None)
           = (\<not> (case c of None \<Rightarrow> False | Some v \<Rightarrow> v \<noteq> [] \<and> Date_parse v \<noteq> None))" for c
    by (cases c) auto
  show ?thesis
    unfolding checkField_def Let_def n b d
    by (simp add: headerPasses_def headerReason_def requiredOk_def numberOk_def dateOk_def
          identifierLike_def amountLike_def dateLike_def)
qed

lemma smartValidate_find:
  "smartValidate Date_parse row headers =
     (case find (\<lambda>key. headerPasses Date_parse row key = False) headers of
        None \<Rightarrow> \<lparr>v_status = VALID, v_error = None\<rparr>
      | Some key \<Rightarrow> \<lparr>v_status = ERROR, v_error = Some (headerReason row key)\<rparr>)"
  by (induction headers) (simp_all add: checkField_rules)

lemma smartValidate_VALID_iff:
  "(v_status (smartValidate Date_parse row headers) = VALID)
     = list_all (headerPasses Date_parse row) headers"
  by (induction headers) (simp_all add: checkField_rules)

lemmas validate_eval = checkField_def string_eval number_eval

lemma validate_rice:
  "smartValidate Date_parse
      (parseRow (map trim (split CHR '','' ''sku,name,price,stock'')) ''RICE-005,Premium Rice,65000,24'')
      (map trim (split CHR '','' ''sku,name,price,stock''))
     = \<lparr>v_status = VALID, v_error = None\<rparr>"
  by (simp add: validate_eval)

lemma validate_negative:
  "smartValidate Date_parse
      (parseRow (map trim (split CHR '','' ''sku,name,price,stock'')) ''RICE-005,Premium Rice,-5,24'')
      (map trim (split CHR '','' ''sku,name,price,stock''))
     = \<lparr>v_status = ERROR, v_error = Some ''Invalid number in Price''\<rparr>"
  by (simp add: validate_eval)

lemma validate_upper:
  "smartValidate Date_parse
      (parseRow (map trim (split CHR '','' ''SKU, Name ,PRICE,Stock'')) ''RICE-005,Premium Rice,-5,24'')
      (map trim (split CHR '','' ''SKU, Name ,PRICE,Stock''))
     = \<lparr>v_status = ERROR, v_error = Some ''Invalid number in Price''\<rparr>"
  by (simp add: validate_eval)

lemma validate_currency:
  "smartValidate Date_parse
      (parseRow (map trim (split CHR '','' ''sku,name,price,stock'')) ''RICE-005,Premium Rice,Rp 65.000,24'')
      (map trim (split CHR '','' ''sku,name,price,stock''))
     = \<lparr>v_status = VALID, v_error = None\<rparr>"
  by (simp add: validate_eval)

lemma validate_letters:
  "smartValidate Date_parse
      (parseRow (map trim (split CHR '','' ''sku,name,price,stock'')) ''RICE-005,Premium Rice,abc,24'')
      (map trim (split CHR '','' ''sku,name,price,stock''))
     = \<lparr>v_status = ERROR, v_error = Some ''Invalid number in Price''\<rparr>"
  by (simp add: validate_eval)

lemma validate_blank_sku:
  "smartValidate Date_parse
      (parseRow (map trim (split CHR '','' ''sku,name,price,stock'')) ''  ,Premium Rice,-5,24'')
      (map trim (split CHR '','' ''sku,name,price,stock''))
     = \<lparr>v_status = ERROR, v_error = Some ''Sku is required''\<rparr>"
  by (simp add: validate_eval)

lemma validate_short_line:
  "smartValidate Date_parse
      (parseRow (map trim (split CHR '','' ''sku,name,price,stock'')) ''RICE-005'')
      (map trim (split CHR '','' ''sku,name,price,stock''))
     = \<lparr>v_status = ERROR, v_error = Some ''Name is required''\<rparr>"
  by (simp add: validate_eval)

lemma validate_nbsp:
  "smartValidate Date_parse [(''sku'', Some [CHR '' '', CHR 0xA0, CHR 0x09])] [''sku'']
     = \<lparr>v_status = ERROR, v_error = Some ''Sku is required''\<rparr>"
  by (simp add: validate_eval)

lemma validate_date:
  "smartValidate Date_parse
      (parseRow (map trim (split CHR '','' ''sku,order_date'')) ''RICE-005,2024-05-01'')
      (map trim (split CHR '','' ''sku,order_date''))
     = (if Date_parse ''2024-05-01'' = None
        then \<lparr>v_status = ERROR, v_error = Some ''Invalid date in Order Date''\<rparr>
        else \<lparr>v_status = VALID, v_error = None\<rparr>)"
  by (simp add: validate_eval)

lemma validate_no_date:
  "smartValidate Date_parse
      (parseRow (map trim (split CHR '','' ''sku,order_date'')) ''RICE-005,'')
      (map trim (split CHR '','' ''sku,order_date''))
     = \<lparr>v_status = ERROR, v_error = Some ''Invalid date in Order Date''\<rparr>"
  by (simp add: validate_eval)

lemma validate_salary:
  "smartValidate Date_parse
      (parseRow (map trim (split CHR '','' ''nama,gaji_pokok'')) ''Budi,-1'')
      (map trim (split CHR '','' ''nama,gaji_pokok''))
     = \<lparr>v_status = ERROR, v_error = Some ''Invalid number in Gaji Pokok''\<rparr>"
  by (simp add: validate_eval)

lemma validate_empty_amount:
  "smartValidate Date_parse
      (parseRow (map trim (split CHR '','' ''sku,name,price,stock'')) ''RICE-005,Premium Rice,,24'')
      (map trim (split CHR '','' ''sku,name,price,stock''))
     = \<lparr>v_status = VALID, v_error = None\<rparr>"
  by (simp add: validate_eval)

lemma smartValidate_VALID_rules:
  "(v_status (smartValidate Date_parse row headers) = VALID)
     = (\<forall>key \<in> set headers.
          (identifierLike key \<longrightarrow> \<not> cellBlank (getField row key))
          \<and> (amountLike key \<longrightarrow> (\<exists>n. cellNumber (getField row key) = Some n \<and> 0 \<le> n))
          \<and> (dateLike key \<longrightarrow>
                (\<exists>v. getField row key = Some v \<and> v \<noteq> [] \<and> Date_parse v \<noteq> None)))"
proof -
  have "headerPasses Date_parse row key
     = ((identifierLike key \<longrightarrow> \<not> cellBlank (getField row key))
          \<and> (amountLike key \<longrightarrow> (\<exists>n. cellNumber (getField row key) = Some n \<and> 0 \<le> n))
          \<and> (dateLike key \<longrightarrow>
                (\<exists>v. getField row key = Some v \<and> v \<noteq> [] \<and> Date_parse v \<noteq> None)))" for key
    by (auto simp: headerPasses_def requiredOk_def numberOk_def dateOk_def split: option.splits)
  then show ?thesis
    by (simp add: smartValidate_VALID_iff list_all_iff)
qed

text \<open>
  C8, as amended. Under the headers sku, name, price, stock the row RICE-005, Premium Rice,
  65000, 24 is VALID, and the same row with the price -5 is an ERROR whose reason names the
  price column, whatever the date parser of the host. The rules: a header whose lower-cased
  name contains id, name, nama or sku needs a cell that is not blank; one that contains
  amount, price, gaji, salary or total needs a cell that, with all but digits, dots and
  minus signs removed, reads as a number not below 0, where a missing or empty cell is
  read as 0; one that contains date or tanggal needs a cell that is not empty and that the
  date parser accepts. A row is VALID exactly when every header passes, and otherwise it
  is an ERROR with the reason of the first header that does not pass. The further rows
  show the rules at work: headers in capitals, a price with a currency prefix, a price of
  letters, a blank and a missing identifier, a cell of white space with a no-break space,
  a date column, a header of two words, and an empty price.
\<close>

theorem smartValidate_rules:
  "smartValidate Date_parse row headers =
     (case find (\<lambda>key. headerPasses Date_parse row key = False) headers of
        None \<Rightarrow> \<lparr>v_status = VALID, v_error = None\<rparr>
      | Some key \<Rightarrow> \<lparr>v_status = ERROR, v_error = Some (headerReason row key)\<rparr>)
   \<and> (v_status (smartValidate Date_parse row headers) = VALID)
     = (\<forall>key \<in> set headers.
          (identifierLike key \<longrightarrow> \<not> cellBlank (getField row key))
          \<and> (amountLike key \<longrightarrow> (\<exists>n. cellNumber (getField row key) = Some n \<and> 0 \<le> n))
          \<and> (dateLike key \<longrightarrow>
                (\<exists>v. getField row key = Some v \<and> v \<noteq> [] \<and> Date_parse v \<noteq> None)))
   \<and> includesStr s sub = (\<exists>p q. s = p @ sub @ q)
   \<and> (trim v = []) = list_all isWhiteSpace v
   \<and> stripNonNumeric v = filter (\<lambda>ch. ch \<in> set ''0123456789.-'') v
   \<and> smartValidate Date_parse
      (parseRow (map trim (split CHR '','' ''sku,name,price,stock'')) ''RICE-005,Premium Rice,65000,24'')
      (map trim (split CHR '','' ''sku,name,price,stock''))
     = \<lparr>v_status = VALID, v_error = None\<rparr>
   \<and> smartValidate Date_parse
      (parseRow (map trim (split CHR '','' ''sku,name,price,stock'')) ''RICE-005,Premium Rice,-5,24'')
      (map trim (split CHR '','' ''sku,name,price,stock''))
     = \<lparr>v_status = ERROR, v_error = Some ''Invalid number in Price''\<rparr>
   \<and> smartValidate Date_parse
      (parseRow (map trim (split CHR '','' ''SKU, Name ,PRICE,Stock'')) ''RICE-005,Premium Rice,-5,24'')
      (map trim (split CHR '','' ''SKU, Name ,PRICE,Stock''))
     = \<lparr>v_status = ERROR, v_error = Some ''Invalid number in Price''\<rparr>
   \<and> smartValidate Date_parse
      (parseRow (map trim (split CHR '','' ''sku,name,price,stock'')) ''RICE-005,Premium Rice,Rp 65.000,24'')
      (map trim (split CHR '','' ''sku,name,price,stock''))
     = \<lparr>v_status = VALID, v_error = None\<rparr>
   \<and> smartValidate Date_parse
      (parseRow (map trim (split CHR '','' ''sku,name,price,stock'')) ''RICE-005,Premium Rice,abc,24'')
      (map trim (split CHR '','' ''sku,name,price,stock''))
     = \<lparr>v_status = ERROR, v_error = Some ''Invalid number in Price''\<rparr>
   \<and> smartValidate Date_parse
      (parseRow (map trim (split CHR '','' ''sku,name,price,stock'')) ''  ,Premium Rice,-5,24'')
      (map trim (split CHR '','' ''sku,name,price,stock''))
     = \<lparr>v_status = ERROR, v_error = Some ''Sku is required''\<rparr>
   \<and> smartValidate Date_parse
      (parseRow (map trim (split CHR '','' ''sku,name,price,stock'')) ''RICE-005'')
      (map trim (split CHR '','' ''sku,name,price,stock''))
     = \<lparr>v_status = ERROR, v_error = Some ''Name is required''\<rparr>
   \<and> smartValidate Date_parse [(''sku'', Some [CHR '' '', CHR 0xA0, CHR 0x09])] [''sku'']
     = \<lparr>v_status = ERROR, v_error = Some ''Sku is required''\<rparr>
   \<and> smartValidate Date_parse
      (parseRow (map trim (split CHR '','' ''sku,order_date'')) ''RICE-005,2024-05-01'')
      (map trim (split CHR '','' ''sku,order_date''))
     = (if Date_parse ''2024-05-01'' = None
        then \<lparr>v_status = ERROR, v_error = Some ''Invalid date in Order Date''\<rparr>
        else \<lparr>v_status = VALID, v_error = None\<rparr>)
   \<and> smartValidate Date_parse
      (parseRow (map trim (split CHR '','' ''sku,order_date'')) ''RICE-005,'')
      (map trim (split CHR '','' ''sku,order_date''))
     = \<lparr>v_status = ERROR, v_error = Some ''Invalid date in Order Date''\<rparr>
   \<and> smartValidate Date_parse
      (parseRow (map trim (split CHR '','' ''nama,gaji_pokok'')) ''Budi,-1'')
      (map trim (split CHR '','' ''nama,gaji_pokok''))
     = \<lparr>v_status = ERROR, v_error = Some ''Invalid number in Gaji Pokok''\<rparr>
   \<and> smartValidate Date_parse
      (parseRow (map trim (split CHR '','' ''sku,name,price,stock'')) ''RICE-005,Premium Rice,,24'')
      (map trim (split CHR '','' ''sku,name,price,stock''))
     = \<lparr>v_status = VALID, v_error = None\<rparr>"
  by (intro conjI)
     (rule smartValidate_find smartValidate_VALID_rules includesStr_iff trim_Nil_iff
        stripNonNumeric_filter validate_rice validate_negative validate_upper validate_currency
        validate_letters validate_blank_sku validate_short_line validate_nbsp validate_date
        validate_no_date validate_salary validate_empty_amount)+

text \<open>The two rows through the whole upload of a three-line file, with a date parser that
  accepts nothing; in the second row the header price is the first that does not pass.\<close>

theorem smartValidate_rules_witness:
  "map status (u_stagedData (uploadCsv (\<lambda>v. None) showNat ''now''
      (''sku,name,price,stock'' @ [CHR 0x0A] @ ''RICE-005,Premium Rice,65000,24'' @ [CHR 0x0A]
       @ ''RICE-005,Premium Rice,-5,24''))) = [VALID, ERROR]
   \<and> map validationError (u_stagedData (uploadCsv (\<lambda>v. None) showNat ''now''
      (''sku,name,price,stock'' @ [CHR 0x0A] @ ''RICE-005,Premium Rice,65000,24'' @ [CHR 0x0A]
       @ ''RICE-005,Premium Rice,-5,24''))) = [None, Some ''Invalid number in Price'']
   \<and> list_all (headerPasses (\<lambda>v. None)
         [(''sku'', Some ''RICE-005''), (''name'', Some ''Premium Rice''),
          (''price'', Some ''65000''), (''stock'', Some ''24'')])
       [''sku'', ''name'', ''price'', ''stock'']
   \<and> find (\<lambda>key. headerPasses (\<lambda>v. None)
         [(''sku'', Some ''RICE-005''), (''name'', Some ''Premium Rice''),
          (''price'', Some ''-5''), (''stock'', Some ''24'')] key = False)
       [''sku'', ''name'', ''price'', ''stock''] = Some ''price''"
  using smartValidate_rules [of "\<lambda>v. None"
      "[(''sku'', Some ''RICE-005''), (''name'', Some ''Premium Rice''),
        (''price'', Some ''65000''), (''stock'', Some ''24'')]"
      "[''sku'', ''name'', ''price'', ''stock'']" "[]" "[]" "[]"]
  by (simp add: uploadCsv_def stageRow_def Let_def validate_eval headerPasses_def requiredOk_def
        numberOk_def dateOk_def identifierLike_def amountLike_def dateLike_def cellBlank_def
        cellNumber_def)

text \<open>
  C8 as stated fails in its rule for amounts: the row with an empty price cell is VALID,
  though the empty cell, with or without stripping, does not read as a number. The code
  reads a missing or empty cell as 0.
\<close>

theorem smartValidate_empty_amount_counterexample:
  "smartValidate (\<lambda>v. None)
      (parseRow [''sku'', ''name'', ''price'', ''stock''] ''RICE-005,Premium Rice,,24'')
      [''sku'', ''name'', ''price'', ''stock'']
     = \<lparr>v_status = VALID, v_error = None\<rparr>
   \<and> getField (parseRow [''sku'', ''name'', ''price'', ''stock''] ''RICE-005,Premium Rice,,24'') ''price''
     = Some []
   \<and> parseFloat (stripNonNumeric []) = None
   \<and> parseFloat [] = None"
  by (simp add: validate_eval)



section \<open>Properties of the commit\<close>

lemma filter_VALID_empty:
  "filter (\<lambda>d. status d = VALID) stagedData = [] \<Longrightarrow>
   filter (\<lambda>d. status d \<noteq> VALID) stagedData = stagedData"
  by (induction stagedData) (simp_all split: if_splits)

lemma handleImportTransactions_Nil: "handleImportTransactions s [] = s"
  by (simp add: handleImportTransactions_def)

text \<open>
  C7. For every staged batch and application state, commit leaves in staging exactly the
  records that are not VALID, in their order; when there is a VALID record the VALID
  records, and only they, are handed to \<^verbatim>\<open>handleImportTransactions\<close>; the expenses grow by
  the sum of the amounts of the VALID records and the net profit falls by the same sum,
  while revenue, cost of goods sold, gross profit, products and journal stay; with no
  VALID record staging and state are unchanged and the alert says so.
\<close>

theorem handleCommit_partition:
  "fst (handleCommit stagedData s) = filter (\<lambda>d. status d \<noteq> VALID) stagedData
   \<and> (filter (\<lambda>d. status d = VALID) stagedData \<noteq> [] \<longrightarrow>
        fst (snd (handleCommit stagedData s))
          = handleImportTransactions s (filter (\<lambda>d. status d = VALID) stagedData)
        \<and> snd (snd (handleCommit stagedData s))
          = showNat (length (filter (\<lambda>d. status d = VALID) stagedData))
              @ '' records successfully processed.'')
   \<and> expenses (st_summary (fst (snd (handleCommit stagedData s))))
       = expenses (st_summary s) + (\<Sum>d\<leftarrow>filter (\<lambda>d. status d = VALID) stagedData. totalAmount d)
   \<and> netProfit (st_summary (fst (snd (handleCommit stagedData s))))
       = netProfit (st_summary s) - (\<Sum>d\<leftarrow>filter (\<lambda>d. status d = VALID) stagedData. totalAmount d)
   \<and> revenue (st_summary (fst (snd (handleCommit stagedData s)))) = revenue (st_summary s)
   \<and> cogs (st_summary (fst (snd (handleCommit stagedData s)))) = cogs (st_summary s)
   \<and> grossProfit (st_summary (fst (snd (handleCommit stagedData s)))) = grossProfit (st_summary s)
   \<and> st_products (fst (snd (handleCommit stagedData s))) = st_products s
   \<and> st_transactions (fst (snd (handleCommit stagedData s))) = st_transactions s
   \<and> (filter (\<lambda>d. status d = VALID) stagedData = [] \<longrightarrow>
        handleCommit stagedData s = (stagedData, s, ''No valid data to commit.''))"
proof (cases "filter (\<lambda>d. status d = VALID) stagedData = []")
  case True
  then show ?thesis
    by (simp add: handleCommit_def filter_VALID_empty)
next
  case False
  then show ?thesis
    by (simp add: handleCommit_def Let_def handleImportTransactions_def foldl_plus_sum_list)
qed

text \<open>Three VALID and two ERROR records: the two ERROR records stay, the expenses grow by
  100000 + 250000 + 50000; a batch of the two ERROR records alone changes nothing.\<close>

theorem handleCommit_partition_witness:
  "map s_id (fst (handleCommit exampleStaged initialState)) = [''r2'', ''r4'']
   \<and> map status (fst (handleCommit exampleStaged initialState)) = [ERROR, ERROR]
   \<and> expenses (st_summary (fst (snd (handleCommit exampleStaged initialState)))) = 2100000 + 400000
   \<and> netProfit (st_summary (fst (snd (handleCommit exampleStaged initialState)))) = 3500000 - 400000
   \<and> snd (snd (handleCommit exampleStaged initialState)) = ''3 records successfully processed.''
   \<and> handleCommit (fst (handleCommit exampleStaged initialState)) initialState
       = (fst (handleCommit exampleStaged initialState), initialState, ''No valid data to commit.'')"
  using handleCommit_partition [of exampleStaged initialState]
  by (simp add: handleCommit_def handleImportTransactions_def exampleStaged_def exampleRecord_def
        initialState_def INITIAL_SUMMARY_def Let_def)

section \<open>Properties of the image upload\<close>

text \<open>
  C9, as amended. When the oracle's result carries an error message, no record is staged
  and the message is shown in an alert. Otherwise exactly one record is staged and no
  alert is shown; the record is VALID exactly when the total is there and not 0 and the
  date is there and not empty, and else it is an ERROR with the reason that the total or
  the date could not be extracted.
\<close>

theorem uploadImage_staged:
  "(r_error result = Some e \<and> e \<noteq> [] \<longrightarrow>
      uploadImage uuid now result
        = \<lparr>u_stagedData = [], u_dynamicHeaders = None,
           u_alert = Some (''AI Analysis Failed: '' @ e)\<rparr>)
   \<and> (truthyStr (r_error result) = False \<longrightarrow>
      length (u_stagedData (uploadImage uuid now result)) = 1
      \<and> u_alert (uploadImage uuid now result) = None
      \<and> map status (u_stagedData (uploadImage uuid now result))
          = [if truthyNum (r_total result) \<and> truthyStr (r_date result) then VALID else ERROR]
      \<and> map validationError (u_stagedData (uploadImage uuid now result))
          = [if truthyNum (r_total result) \<and> truthyStr (r_date result) then None
             else Some ''AI could not extract Total or Date''])"
  by (simp add: uploadImage_def truthyStr_def Let_def)

theorem uploadImage_staged_witness:
  "uploadImage ''id-1'' ''now'' errorResult
     = \<lparr>u_stagedData = [], u_dynamicHeaders = None,
        u_alert = Some ''AI Analysis Failed: Invalid Document''\<rparr>
   \<and> map status (u_stagedData (uploadImage ''id-1'' ''now'' (receiptResult (Some ''2024-05-01'') (Some 130000))))
       = [VALID]
   \<and> map status (u_stagedData (uploadImage ''id-1'' ''now'' (receiptResult None (Some 130000))))
       = [ERROR]
   \<and> map validationError (u_stagedData (uploadImage ''id-1'' ''now'' (receiptResult None (Some 130000))))
       = [Some ''AI could not extract Total or Date'']"
  using uploadImage_staged [of errorResult "''Invalid Document''" "''id-1''" "''now''"]
    uploadImage_staged [of "receiptResult (Some ''2024-05-01'') (Some 130000)" "[]" "''id-1''" "''now''"]
    uploadImage_staged [of "receiptResult None (Some 130000)" "[]" "''id-1''" "''now''"]
  by (simp add: errorResult_def receiptResult_def truthyStr_def truthyNum_def)

text \<open>
  C9 as stated fails twice. On the oracle's error result the upload stages no record: the
  message goes to an alert. And a result whose total is 0 has both a total and a date, yet
  its record is an ERROR, since the code tests the two values for truth.
\<close>

theorem uploadImage_error_counterexample:
  "u_stagedData (uploadImage ''id-1'' ''now'' errorResult) = []
   \<and> u_alert (uploadImage ''id-1'' ''now'' errorResult) = Some ''AI Analysis Failed: Invalid Document''
   \<and> map status (u_stagedData (uploadImage ''id-1'' ''now'' (receiptResult (Some ''2024-05-01'') (Some 0))))
       = [ERROR]"
  by (simp add: uploadImage_def errorResult_def receiptResult_def truthyStr_def truthyNum_def Let_def)

end
